theory Spec2Isabelle
  imports Complex_Main
begin

section \<open>Tokens\<close>

text \<open>
  Modelled from the spec: the token enumeration of the named-binding generation of the
  package. The file \<^verbatim>\<open>token.go\<close> under the sources is the one of the positional
  generation (it stops at \<^verbatim>\<open>GTE\<close>); the tokens \<^verbatim>\<open>ARRAY\<close>, \<^verbatim>\<open>XOR\<close>, \<^verbatim>\<open>NAND\<close>,
  \<^verbatim>\<open>IN\<close>, \<^verbatim>\<open>NOTIN\<close>, \<^verbatim>\<open>EREG\<close>, \<^verbatim>\<open>NEREG\<close>, \<^verbatim>\<open>INTERSECTS\<close> and \<^verbatim>\<open>HAS\<close> are the ones
  the evaluator and the parser of the sources name, with the levels of the
  specification's token model.
\<close>

datatype Token =
    ILLEGAL | EOF
  | IDENT | NUMBER | STRING | TRUE | FALSE | ARRAY
  | AND | OR | XOR | NAND
  | EQ | NEQ | LT | LTE | GT | GTE
  | IN | NOTIN | EREG | NEREG | INTERSECTS | HAS
  | LPAREN | RPAREN

text \<open>
  Modelled from the spec: the levels of \<^verbatim>\<open>XOR\<close> and \<^verbatim>\<open>NAND\<close> (2) and of the membership,
  set and pattern operators (3), which \<^verbatim>\<open>Precedence\<close> in \<^verbatim>\<open>token.go\<close> under the sources
  does not name. The other levels are the ones of that function: \<^verbatim>\<open>OR\<close> is 1, \<^verbatim>\<open>AND\<close>
  is 2, the six comparisons are 3, and every token that is no operator is 0.
\<close>

fun Precedence :: "Token \<Rightarrow> nat" where
  "Precedence OR = 1"
| "Precedence AND = 2"
| "Precedence XOR = 2"
| "Precedence NAND = 2"
| "Precedence EQ = 3"
| "Precedence NEQ = 3"
| "Precedence LT = 3"
| "Precedence LTE = 3"
| "Precedence GT = 3"
| "Precedence GTE = 3"
| "Precedence IN = 3"
| "Precedence NOTIN = 3"
| "Precedence EREG = 3"
| "Precedence NEREG = 3"
| "Precedence INTERSECTS = 3"
| "Precedence HAS = 3"
| "Precedence _ = 0"

text \<open>
  Modelled from the spec: the operator tokens of the named-binding generation.
  \<^verbatim>\<open>isOperator\<close> in \<^verbatim>\<open>token.go\<close> holds for the tokens strictly between \<^verbatim>\<open>operatorBegin\<close>
  and \<^verbatim>\<open>operatorEnd\<close>, which are \<^verbatim>\<open>AND\<close>, \<^verbatim>\<open>OR\<close> and the six comparisons there.
\<close>

fun isOperator :: "Token \<Rightarrow> bool" where
  "isOperator AND = True"
| "isOperator OR = True"
| "isOperator XOR = True"
| "isOperator NAND = True"
| "isOperator EQ = True"
| "isOperator NEQ = True"
| "isOperator LT = True"
| "isOperator LTE = True"
| "isOperator GT = True"
| "isOperator GTE = True"
| "isOperator IN = True"
| "isOperator NOTIN = True"
| "isOperator EREG = True"
| "isOperator NEREG = True"
| "isOperator INTERSECTS = True"
| "isOperator HAS = True"
| "isOperator _ = False"

section \<open>Numbers\<close>

text \<open>
  A \<^verbatim>\<open>float64\<close> is a finite value, an infinity or a NaN. The evaluator never computes
  with numbers: it converts, stores and compares them. A finite value is modelled by the
  real number it denotes (both zeros denote 0, and Go compares them equal); the
  comparisons are the ones of Go: every comparison with a NaN is false, except \<^verbatim>\<open>!=\<close>.
\<close>

datatype float64 = Fin real | PInf | NInf | NaN

fun float_lt :: "float64 \<Rightarrow> float64 \<Rightarrow> bool" where
  "float_lt NaN _ = False"
| "float_lt _ NaN = False"
| "float_lt (Fin x) (Fin y) = (x < y)"
| "float_lt (Fin x) PInf = True"
| "float_lt (Fin x) NInf = False"
| "float_lt PInf _ = False"
| "float_lt NInf NInf = False"
| "float_lt NInf _ = True"

fun float_eq :: "float64 \<Rightarrow> float64 \<Rightarrow> bool" where
  "float_eq NaN _ = False"
| "float_eq _ NaN = False"
| "float_eq x y = (x = y)"

definition float_neq :: "float64 \<Rightarrow> float64 \<Rightarrow> bool" where
  "float_neq x y = (\<not> float_eq x y)"

definition float_gt :: "float64 \<Rightarrow> float64 \<Rightarrow> bool" where
  "float_gt x y = float_lt y x"

definition float_le :: "float64 \<Rightarrow> float64 \<Rightarrow> bool" where
  "float_le x y = (float_lt x y \<or> float_eq x y)"

definition float_ge :: "float64 \<Rightarrow> float64 \<Rightarrow> bool" where
  "float_ge x y = (float_lt y x \<or> float_eq x y)"

section \<open>Expressions\<close>

text \<open>
  Modelled from the spec: the node types of the tree (their declarations are not among
  the sources; the field names are the ones the evaluator and the parser use). An
  \<^verbatim>\<open>Expr\<close> is a Go interface value: \<open>Nil\<close> is the nil interface, every other constructor
  a pointer to a node.
\<close>

datatype Expr =
    Nil
  | BooleanLiteral bool
  | NumberLiteral float64
  | StringLiteral string
  | SliceStringLiteral "string list"
  | SliceNumberLiteral "float64 list"
  | VarRef string
  | ParenExpr Expr
  | BinaryExpr Expr Token Expr

section \<open>Errors, results and panics\<close>

datatype error =
    NilExpression
  | UnexpectedRootResult Expr
  | ArgumentNotFound string
  | UnsupportedArgumentType string
  | UnsupportedOperator Token
  | NotBoolean Expr
  | NotString Expr
  | NotNumber Expr
  | NotSliceNumber Expr
  | NotSliceString Expr
  | UnknownLiteralType Expr
  | CannotCompareString
  | CannotCompareNumber
  | CannotCompareBoolean
  | Wrap error string
  | LibraryError string
  | IllegalToken string
  | MissingRParen
  | UnableToParseNumber
  | EmptySliceNotCastable
  | SliceUnknownType
  | ParsingError Token string
  | ArgsError

text \<open>
  A Go function of the package returns a value together with an error. The three shapes
  the sources return: \<open>Ok v\<close> is \<^verbatim>\<open>return v, nil\<close>; \<open>Fail v e\<close> is \<^verbatim>\<open>return v, err\<close> with a
  value that is not a nil pointer (\<^verbatim>\<open>falseExpr\<close>, a zero value, a fresh literal);
  \<open>FailNil e\<close> is \<^verbatim>\<open>return nil, err\<close>.
\<close>

datatype 'a ret = Ok 'a | Fail 'a error | FailNil error

fun err_of :: "'a ret \<Rightarrow> error option" where
  "err_of (Ok v) = None"
| "err_of (Fail v e) = Some e"
| "err_of (FailNil e) = Some e"

text \<open>A call either returns or panics (a run-time error that unwinds the caller).\<close>

datatype 'a go = Returns 'a | Panics

section \<open>The operator library\<close>

fun getBoolean :: "Expr \<Rightarrow> bool ret" where
  "getBoolean (BooleanLiteral v) = Ok v"
| "getBoolean e = Fail False (NotBoolean e)"

fun getString :: "Expr \<Rightarrow> string ret" where
  "getString (StringLiteral v) = Ok v"
| "getString e = Fail [] (NotString e)"

fun getSliceNumber :: "Expr \<Rightarrow> float64 list ret" where
  "getSliceNumber (SliceNumberLiteral v) = Ok v"
| "getSliceNumber e = Fail [] (NotSliceNumber e)"

fun getSliceString :: "Expr \<Rightarrow> string list ret" where
  "getSliceString (SliceStringLiteral v) = Ok v"
| "getSliceString e = Fail [] (NotSliceString e)"

fun getNumber :: "Expr \<Rightarrow> float64 ret" where
  "getNumber (NumberLiteral v) = Ok v"
| "getNumber e = Fail (Fin 0) (NotNumber e)"

text \<open>
  The four connectives and the four order comparisons share one shape: both operands
  are read with the same getter, the first error is returned with a nil pointer
  (\<^verbatim>\<open>applyLTE\<close> returns \<^verbatim>\<open>falseExpr\<close> instead).
\<close>

definition applyAND :: "Expr \<Rightarrow> Expr \<Rightarrow> bool ret" where
  "applyAND l r =
     (case getBoolean l of
        Ok a \<Rightarrow> (case getBoolean r of
                   Ok b \<Rightarrow> Ok (a \<and> b)
                 | Fail _ e \<Rightarrow> FailNil e | FailNil e \<Rightarrow> FailNil e)
      | Fail _ e \<Rightarrow> FailNil e | FailNil e \<Rightarrow> FailNil e)"

definition applyOR :: "Expr \<Rightarrow> Expr \<Rightarrow> bool ret" where
  "applyOR l r =
     (case getBoolean l of
        Ok a \<Rightarrow> (case getBoolean r of
                   Ok b \<Rightarrow> Ok (a \<or> b)
                 | Fail _ e \<Rightarrow> FailNil e | FailNil e \<Rightarrow> FailNil e)
      | Fail _ e \<Rightarrow> FailNil e | FailNil e \<Rightarrow> FailNil e)"

definition applyXOR :: "Expr \<Rightarrow> Expr \<Rightarrow> bool ret" where
  "applyXOR l r =
     (case getBoolean l of
        Ok a \<Rightarrow> (case getBoolean r of
                   Ok b \<Rightarrow> Ok (a \<noteq> b)
                 | Fail _ e \<Rightarrow> FailNil e | FailNil e \<Rightarrow> FailNil e)
      | Fail _ e \<Rightarrow> FailNil e | FailNil e \<Rightarrow> FailNil e)"

definition applyNAND :: "Expr \<Rightarrow> Expr \<Rightarrow> bool ret" where
  "applyNAND l r =
     (case getBoolean l of
        Ok a \<Rightarrow> (case getBoolean r of
                   Ok b \<Rightarrow> Ok (\<not> (a \<and> b))
                 | Fail _ e \<Rightarrow> FailNil e | FailNil e \<Rightarrow> FailNil e)
      | Fail _ e \<Rightarrow> FailNil e | FailNil e \<Rightarrow> FailNil e)"

definition applyGT :: "Expr \<Rightarrow> Expr \<Rightarrow> bool ret" where
  "applyGT l r =
     (case getNumber l of
        Ok a \<Rightarrow> (case getNumber r of
                   Ok b \<Rightarrow> Ok (float_gt a b)
                 | Fail _ e \<Rightarrow> FailNil e | FailNil e \<Rightarrow> FailNil e)
      | Fail _ e \<Rightarrow> FailNil e | FailNil e \<Rightarrow> FailNil e)"

definition applyGTE :: "Expr \<Rightarrow> Expr \<Rightarrow> bool ret" where
  "applyGTE l r =
     (case getNumber l of
        Ok a \<Rightarrow> (case getNumber r of
                   Ok b \<Rightarrow> Ok (float_ge a b)
                 | Fail _ e \<Rightarrow> FailNil e | FailNil e \<Rightarrow> FailNil e)
      | Fail _ e \<Rightarrow> FailNil e | FailNil e \<Rightarrow> FailNil e)"

definition applyLT :: "Expr \<Rightarrow> Expr \<Rightarrow> bool ret" where
  "applyLT l r =
     (case getNumber l of
        Ok a \<Rightarrow> (case getNumber r of
                   Ok b \<Rightarrow> Ok (float_lt a b)
                 | Fail _ e \<Rightarrow> FailNil e | FailNil e \<Rightarrow> FailNil e)
      | Fail _ e \<Rightarrow> FailNil e | FailNil e \<Rightarrow> FailNil e)"

definition applyLTE :: "Expr \<Rightarrow> Expr \<Rightarrow> bool ret" where
  "applyLTE l r =
     (case getNumber l of
        Ok a \<Rightarrow> (case getNumber r of
                   Ok b \<Rightarrow> Ok (float_le a b)
                 | Fail _ e \<Rightarrow> Fail False e | FailNil e \<Rightarrow> Fail False e)
      | Fail _ e \<Rightarrow> Fail False e | FailNil e \<Rightarrow> Fail False e)"

text \<open>
  \<^verbatim>\<open>applyEQ\<close> and \<^verbatim>\<open>applyNQ\<close> try the left operand as a string, then as a number, then as
  a boolean; the first kind that fits decides, and a right operand of another kind is an
  error returned with \<^verbatim>\<open>falseExpr\<close>. A left operand of none of the three kinds falls
  through to \<^verbatim>\<open>return falseExpr, nil\<close>. \<^verbatim>\<open>falseExpr\<close> is a package-level literal that
  no function writes to (the two assignments to a \<^verbatim>\<open>Val\<close> field, in \<^verbatim>\<open>applyNEREG\<close> and
  \<^verbatim>\<open>applyNOTIN\<close>, act on literals that \<^verbatim>\<open>applyEREG\<close> and \<^verbatim>\<open>applyIN\<close> allocate), so its
  value is \<open>False\<close>.
\<close>

definition applyEQ :: "Expr \<Rightarrow> Expr \<Rightarrow> bool ret" where
  "applyEQ l r =
     (case getString l of
        Ok as \<Rightarrow> (case getString r of
                    Ok bs \<Rightarrow> Ok (as = bs)
                  | _ \<Rightarrow> Fail False CannotCompareString)
      | _ \<Rightarrow>
     (case getNumber l of
        Ok an \<Rightarrow> (case getNumber r of
                    Ok bn \<Rightarrow> Ok (float_eq an bn)
                  | _ \<Rightarrow> Fail False CannotCompareNumber)
      | _ \<Rightarrow>
     (case getBoolean l of
        Ok ab \<Rightarrow> (case getBoolean r of
                    Ok bb \<Rightarrow> Ok (ab = bb)
                  | _ \<Rightarrow> Fail False CannotCompareBoolean)
      | _ \<Rightarrow> Ok False)))"

definition applyNQ :: "Expr \<Rightarrow> Expr \<Rightarrow> bool ret" where
  "applyNQ l r =
     (case getString l of
        Ok as \<Rightarrow> (case getString r of
                    Ok bs \<Rightarrow> Ok (as \<noteq> bs)
                  | _ \<Rightarrow> Fail False CannotCompareString)
      | _ \<Rightarrow>
     (case getNumber l of
        Ok an \<Rightarrow> (case getNumber r of
                    Ok bn \<Rightarrow> Ok (float_neq an bn)
                  | _ \<Rightarrow> Fail False CannotCompareNumber)
      | _ \<Rightarrow>
     (case getBoolean l of
        Ok ab \<Rightarrow> (case getBoolean r of
                    Ok bb \<Rightarrow> Ok (ab \<noteq> bb)
                  | _ \<Rightarrow> Fail False CannotCompareBoolean)
      | _ \<Rightarrow> Ok False)))"

text \<open>
  \<^verbatim>\<open>applyIN\<close> switches on the type of the left operand, so that its \<^verbatim>\<open>getString\<close> and
  \<^verbatim>\<open>getNumber\<close> on the left operand cannot fail. The loop over the right operand sets
  \<^verbatim>\<open>found\<close> at every element equal to the left one and never leaves early.
\<close>

fun in_strings :: "string \<Rightarrow> string list \<Rightarrow> bool \<Rightarrow> bool" where
  "in_strings a [] found = found"
| "in_strings a (e # b) found = in_strings a b (if a = e then True else found)"

fun in_numbers :: "float64 \<Rightarrow> float64 list \<Rightarrow> bool \<Rightarrow> bool" where
  "in_numbers a [] found = found"
| "in_numbers a (e # b) found = in_numbers a b (if float_eq a e then True else found)"

fun applyIN :: "Expr \<Rightarrow> Expr \<Rightarrow> bool ret" where
  "applyIN (StringLiteral a) r =
     (case getSliceString r of
        Ok b \<Rightarrow> Ok (in_strings a b False)
      | Fail _ e \<Rightarrow> FailNil e | FailNil e \<Rightarrow> FailNil e)"
| "applyIN (NumberLiteral a) r =
     (case getSliceNumber r of
        Ok b \<Rightarrow> Ok (in_numbers a b False)
      | Fail _ e \<Rightarrow> FailNil e | FailNil e \<Rightarrow> FailNil e)"
| "applyIN l r = FailNil (UnknownLiteralType l)"

text \<open>
  \<^verbatim>\<open>applyNOTIN\<close> and \<^verbatim>\<open>applyNEREG\<close> negate the \<^verbatim>\<open>Val\<close> field of the literal the positive
  operator returned, before they look at the error: \<^verbatim>\<open>result.Val = !result.Val\<close> on a nil
  pointer is a nil dereference, which panics.
\<close>

fun negate_result :: "bool ret \<Rightarrow> bool ret go" where
  "negate_result (Ok v) = Returns (Ok (\<not> v))"
| "negate_result (Fail v e) = Returns (Fail (\<not> v) e)"
| "negate_result (FailNil e) = Panics"

definition applyNOTIN :: "Expr \<Rightarrow> Expr \<Rightarrow> bool ret go" where
  "applyNOTIN l r = negate_result (applyIN l r)"

text \<open>
  \<^verbatim>\<open>regexp.MatchString\<close> is a parameter \<open>rx\<close>: from the pattern and the subject to the
  pair of its results, the match and the error of a pattern that does not compile.
\<close>

type_synonym matcher = "string \<Rightarrow> string \<Rightarrow> bool \<times> error option"

definition applyEREG :: "matcher \<Rightarrow> Expr \<Rightarrow> Expr \<Rightarrow> bool ret" where
  "applyEREG rx l r =
     (case getString l of
        Ok a \<Rightarrow> (case getString r of
                   Ok b \<Rightarrow> (case rx b a of
                              (match, None) \<Rightarrow> Ok match
                            | (match, Some e) \<Rightarrow> Fail match e)
                 | Fail _ e \<Rightarrow> FailNil e | FailNil e \<Rightarrow> FailNil e)
      | Fail _ e \<Rightarrow> FailNil e | FailNil e \<Rightarrow> FailNil e)"

definition applyNEREG :: "matcher \<Rightarrow> Expr \<Rightarrow> Expr \<Rightarrow> bool ret go" where
  "applyNEREG rx l r = negate_result (applyEREG rx l r)"

text \<open>\<^verbatim>\<open>applyINTERSECTS\<close> and \<^verbatim>\<open>applyHAS\<close> leave their loops at the first match.\<close>

fun has_loop :: "string list \<Rightarrow> string \<Rightarrow> bool" where
  "has_loop [] right = False"
| "has_loop (val # left) right = (if val = right then True else has_loop left right)"

fun intersects_loop :: "string list \<Rightarrow> string list \<Rightarrow> bool" where
  "intersects_loop [] right = False"
| "intersects_loop (val # left) right =
     (if has_loop right val then True else intersects_loop left right)"

definition applyINTERSECTS :: "Expr \<Rightarrow> Expr \<Rightarrow> bool ret" where
  "applyINTERSECTS l r =
     (case getSliceString l of
        Ok left \<Rightarrow>
          (case getSliceString r of
             Ok right \<Rightarrow> Ok (intersects_loop left right)
           | Fail _ e \<Rightarrow>
               Fail False (Wrap e ''right operand of INTERSECTS operator must have string slice type'')
           | FailNil e \<Rightarrow>
               Fail False (Wrap e ''right operand of INTERSECTS operator must have string slice type''))
      | Fail _ e \<Rightarrow>
          Fail False (Wrap e ''left operand of INTERSECTS operator must have string slice type'')
      | FailNil e \<Rightarrow>
          Fail False (Wrap e ''left operand of INTERSECTS operator must have string slice type''))"

definition applyHAS :: "Expr \<Rightarrow> Expr \<Rightarrow> bool ret" where
  "applyHAS l r =
     (case getSliceString l of
        Ok left \<Rightarrow>
          (case getString r of
             Ok right \<Rightarrow> Ok (has_loop left right)
           | Fail _ e \<Rightarrow> Fail False (Wrap e ''right operand of HAS operator must be a string'')
           | FailNil e \<Rightarrow> Fail False (Wrap e ''right operand of HAS operator must be a string''))
      | Fail _ e \<Rightarrow>
          Fail False (Wrap e ''left operand of HAS operator must have string slice type'')
      | FailNil e \<Rightarrow>
          Fail False (Wrap e ''left operand of HAS operator must have string slice type''))"

fun applyOperator :: "matcher \<Rightarrow> Token \<Rightarrow> Expr \<Rightarrow> Expr \<Rightarrow> bool ret go" where
  "applyOperator rx AND l r = Returns (applyAND l r)"
| "applyOperator rx OR l r = Returns (applyOR l r)"
| "applyOperator rx EQ l r = Returns (applyEQ l r)"
| "applyOperator rx NEQ l r = Returns (applyNQ l r)"
| "applyOperator rx GT l r = Returns (applyGT l r)"
| "applyOperator rx GTE l r = Returns (applyGTE l r)"
| "applyOperator rx LT l r = Returns (applyLT l r)"
| "applyOperator rx LTE l r = Returns (applyLTE l r)"
| "applyOperator rx XOR l r = Returns (applyXOR l r)"
| "applyOperator rx NAND l r = Returns (applyNAND l r)"
| "applyOperator rx IN l r = Returns (applyIN l r)"
| "applyOperator rx NOTIN l r = applyNOTIN l r"
| "applyOperator rx EREG l r = Returns (applyEREG rx l r)"
| "applyOperator rx NEREG l r = applyNEREG rx l r"
| "applyOperator rx INTERSECTS l r = Returns (applyINTERSECTS l r)"
| "applyOperator rx HAS l r = Returns (applyHAS l r)"
| "applyOperator rx op l r = Returns (Fail False (UnsupportedOperator op))"

section \<open>Bindings\<close>

text \<open>
  A binding is a Go \<^verbatim>\<open>interface{}\<close> value; \<^verbatim>\<open>evaluateSubtree\<close> switches on its
  \<^verbatim>\<open>reflect\<close> kind and then asserts the built-in type of that kind. The numeric
  bindings carry the result of their conversion \<^verbatim>\<open>float64(...)\<close>. \<open>HNilValue\<close> is a key
  bound to the nil interface. \<open>HOtherType k\<close> is a value of kind \<open>k\<close> whose dynamic type is
  none of the asserted ones: a defined type such as \<^verbatim>\<open>time.Duration\<close> (kind
  \<^verbatim>\<open>Int64\<close>), a slice other than \<^verbatim>\<open>[]interface{}\<close> and \<^verbatim>\<open>[]string\<close>, or a kind the
  switch has no case for.
\<close>

datatype Kind =
    KInt | KInt32 | KInt64 | KFloat32 | KFloat64 | KString | KBool | KSlice | KOther

datatype hostval =
    HNilValue
  | HInt float64
  | HInt32 float64
  | HInt64 float64
  | HFloat32 float64
  | HFloat64 float64
  | HString string
  | HBool bool
  | HSliceInterface "hostval list"
  | HSliceString "string list"
  | HOtherType Kind

type_synonym bindings = "string \<rightharpoonup> hostval"

text \<open>The strings of a \<^verbatim>\<open>[]interface{}\<close>; the elements of any other type are dropped.\<close>

fun stringsSlice :: "hostval list \<Rightarrow> string list" where
  "stringsSlice [] = []"
| "stringsSlice (HString s # slice) = s # stringsSlice slice"
| "stringsSlice (value # slice) = stringsSlice slice"

definition falseExpr :: Expr where
  "falseExpr = BooleanLiteral False"

text \<open>
  \<open>resolve\<close> is the \<^verbatim>\<open>*VarRef\<close> case of \<^verbatim>\<open>evaluateSubtree\<close> after the lookup.
  \<^verbatim>\<open>reflect.TypeOf\<close> of the nil interface is nil, and \<^verbatim>\<open>Kind()\<close> on it panics; a type
  assertion without \<^verbatim>\<open>ok\<close> on a value of another dynamic type panics; a slice that is
  neither \<^verbatim>\<open>[]interface{}\<close> nor \<^verbatim>\<open>[]string\<close> leaves the switch for the final error.
\<close>

fun resolve :: "string \<Rightarrow> hostval \<Rightarrow> Expr ret go" where
  "resolve n HNilValue = Panics"
| "resolve n (HInt v) = Returns (Ok (NumberLiteral v))"
| "resolve n (HInt32 v) = Returns (Ok (NumberLiteral v))"
| "resolve n (HInt64 v) = Returns (Ok (NumberLiteral v))"
| "resolve n (HFloat32 v) = Returns (Ok (NumberLiteral v))"
| "resolve n (HFloat64 v) = Returns (Ok (NumberLiteral v))"
| "resolve n (HString v) = Returns (Ok (StringLiteral v))"
| "resolve n (HBool v) = Returns (Ok (BooleanLiteral v))"
| "resolve n (HSliceInterface slice) = Returns (Ok (SliceStringLiteral (stringsSlice slice)))"
| "resolve n (HSliceString v) = Returns (Ok (SliceStringLiteral v))"
| "resolve n (HOtherType k) =
     (if k = KSlice \<or> k = KOther then Returns (Fail falseExpr (UnsupportedArgumentType n))
      else Panics)"

section \<open>The evaluator\<close>

text \<open>
  \<^verbatim>\<open>applyOperator\<close> returns a \<^verbatim>\<open>*BooleanLiteral\<close>, which \<^verbatim>\<open>evaluateSubtree\<close> returns as an
  \<^verbatim>\<open>Expr\<close>, error included.
\<close>

fun literal_of :: "bool ret \<Rightarrow> Expr ret" where
  "literal_of (Ok v) = Ok (BooleanLiteral v)"
| "literal_of (Fail v e) = Fail (BooleanLiteral v) e"
| "literal_of (FailNil e) = FailNil e"

fun evaluateSubtree :: "matcher \<Rightarrow> Expr \<Rightarrow> bindings \<Rightarrow> Expr ret go" where
  "evaluateSubtree rx Nil args = Returns (Fail falseExpr NilExpression)"
| "evaluateSubtree rx (ParenExpr e) args = evaluateSubtree rx e args"
| "evaluateSubtree rx (BinaryExpr lhs op rhs) args =
     (case evaluateSubtree rx lhs args of
        Panics \<Rightarrow> Panics
      | Returns (Fail _ e) \<Rightarrow> Returns (Fail falseExpr e)
      | Returns (FailNil e) \<Rightarrow> Returns (Fail falseExpr e)
      | Returns (Ok lv) \<Rightarrow>
          (case evaluateSubtree rx rhs args of
             Panics \<Rightarrow> Panics
           | Returns (Fail _ e) \<Rightarrow> Returns (Fail falseExpr e)
           | Returns (FailNil e) \<Rightarrow> Returns (Fail falseExpr e)
           | Returns (Ok rv) \<Rightarrow>
               (case applyOperator rx op lv rv of
                  Panics \<Rightarrow> Panics
                | Returns res \<Rightarrow> Returns (literal_of res))))"
| "evaluateSubtree rx (VarRef index) args =
     (case args index of
        None \<Rightarrow> Returns (Fail falseExpr (ArgumentNotFound index))
      | Some v \<Rightarrow> resolve index v)"
| "evaluateSubtree rx expr args = Returns (Ok expr)"

text \<open>\<^verbatim>\<open>Evaluate\<close> returns a boolean and an error (\<open>None\<close> is the nil error).\<close>

definition Evaluate :: "matcher \<Rightarrow> Expr \<Rightarrow> bindings \<Rightarrow> (bool \<times> error option) go" where
  "Evaluate rx expr args =
     (if expr = Nil then Returns (False, Some NilExpression)
      else case evaluateSubtree rx expr args of
             Panics \<Rightarrow> Panics
           | Returns (Fail _ e) \<Rightarrow> Returns (False, Some e)
           | Returns (FailNil e) \<Rightarrow> Returns (False, Some e)
           | Returns (Ok (BooleanLiteral v)) \<Rightarrow> Returns (v, None)
           | Returns (Ok result) \<Rightarrow> Returns (False, Some (UnexpectedRootResult result)))"

section \<open>The dependency query\<close>

text \<open>
  Modelled from the spec: the method \<^verbatim>\<open>Args\<close> of the node types, which \<^verbatim>\<open>Variables\<close>
  calls and whose declaration is not among the sources: the names a tree references,
  in the order they are met from left to right. A method call on the nil interface
  panics.
\<close>

fun Args :: "Expr \<Rightarrow> string list go" where
  "Args Nil = Panics"
| "Args (VarRef v) = Returns [v]"
| "Args (ParenExpr e) = Args e"
| "Args (BinaryExpr lhs op rhs) =
     (case Args lhs of
        Panics \<Rightarrow> Panics
      | Returns a \<Rightarrow> (case Args rhs of Panics \<Rightarrow> Panics | Returns b \<Rightarrow> Returns (a @ b)))"
| "Args e = Returns []"

text \<open>
  \<^verbatim>\<open>removeDuplicates\<close>: one pass over the list with the map \<^verbatim>\<open>seen\<close> and the slice
  \<^verbatim>\<open>result\<close>, which grows at its end.
\<close>

fun removeDuplicates_loop ::
  "string list \<Rightarrow> string list \<Rightarrow> (string \<rightharpoonup> string) \<Rightarrow> string list" where
  "removeDuplicates_loop [] result seen = result"
| "removeDuplicates_loop (val # a) result seen =
     (if seen val = None then removeDuplicates_loop a (result @ [val]) (seen(val \<mapsto> val))
      else removeDuplicates_loop a result seen)"

definition removeDuplicates :: "string list \<Rightarrow> string list" where
  "removeDuplicates a = removeDuplicates_loop a [] Map.empty"

definition Variables :: "Expr \<Rightarrow> string list go" where
  "Variables expression =
     (case Args expression of Panics \<Rightarrow> Panics | Returns a \<Rightarrow> Returns (removeDuplicates a))"

section \<open>The scanner and the parser\<close>

text \<open>
  The parser reads the tokens of Go's \<^verbatim>\<open>text/scanner\<close>: a token is a rune, one of the
  scanner's classes or the character itself, with its text. The model starts from that
  token sequence; at its end \<^verbatim>\<open>Scan\<close> returns \<^verbatim>\<open>scanner.EOF\<close> with the empty text, at
  every call.
\<close>

datatype rune =
    scanner_EOF | scanner_Ident | scanner_Int | scanner_Float | scanner_Char
  | scanner_String | scanner_RawString | scanner_Comment
  | Rune char

record Parser =
  scanner :: "(rune \<times> string) list"
  buf_tok :: rune
  buf_tt :: string
  buf_n :: nat

definition NewParser :: "(rune \<times> string) list \<Rightarrow> Parser" where
  "NewParser r = \<lparr>scanner = r, buf_tok = Rune (char_of (0::nat)), buf_tt = [], buf_n = 0\<rparr>"

definition scan :: "Parser \<Rightarrow> (rune \<times> string) \<times> Parser" where
  "scan p =
     (if buf_n p \<noteq> 0 then ((buf_tok p, buf_tt p), p\<lparr>buf_n := 0\<rparr>)
      else case scanner p of
             [] \<Rightarrow> ((scanner_EOF, []), p\<lparr>buf_tok := scanner_EOF, buf_tt := []\<rparr>)
           | (t, tt) # rest \<Rightarrow> ((t, tt), p\<lparr>scanner := rest, buf_tok := t, buf_tt := tt\<rparr>))"

definition unscan :: "Parser \<Rightarrow> Parser" where
  "unscan p = p\<lparr>buf_n := 1\<rparr>"

text \<open>
  The loops of the scanner take fuel, one unit for each turn: \<open>None\<close> is a loop that
  has not returned within the fuel. \<^verbatim>\<open>scanArray\<close> and the loop of the \<^verbatim>\<open>'/'\<close> case leave
  only at their closing character, so they do not return at the end of the input.
\<close>

fun scanArray :: "nat \<Rightarrow> string \<Rightarrow> Parser \<Rightarrow> ((rune \<times> string) ret \<times> Parser) option" where
  "scanArray 0 tt p = None"
| "scanArray (Suc n) tt p =
     (case scan p of
        ((t, ttTmp), p1) \<Rightarrow>
          if t = Rune (CHR '']'') then Some (Ok (t, tt), p1)
          else scanArray n (tt @ [] @ ttTmp) p1)"

fun scanArg :: "nat \<Rightarrow> string \<Rightarrow> string \<Rightarrow> Parser \<Rightarrow> ((rune \<times> string) ret \<times> Parser) option" where
  "scanArg 0 tt sep p = None"
| "scanArg (Suc n) tt sep p =
     (case scan p of
        ((t, ttTmp), p1) \<Rightarrow>
          if t = Rune (CHR ''@'') then scanArg n (tt @ sep @ ttTmp) sep p1
          else case scan p1 of
            ((t2, _), p2) \<Rightarrow>
              if t2 = Rune (CHR '']'') then
                (case scan p2 of
                   ((ti, _), p3) \<Rightarrow>
                     if ti = Rune (CHR ''['') then scanArg n (tt @ sep @ ttTmp) ''.'' p3
                     else Some (Ok (t2, tt @ sep @ ttTmp), unscan p3))
              else Some (Fail (t2, tt @ sep @ ttTmp) ArgsError, p2))"

fun scanPattern :: "nat \<Rightarrow> string \<Rightarrow> Parser \<Rightarrow> (string \<times> Parser) option" where
  "scanPattern 0 tt p = None"
| "scanPattern (Suc n) tt p =
     (case scan p of
        ((t, ttTmp), p1) \<Rightarrow>
          if t = Rune (CHR ''/'') then Some (tt @ ttTmp, p1)
          else scanPattern n (tt @ ttTmp) p1)"

text \<open>
  \<^verbatim>\<open>strings.ToUpper\<close> on the letters of ASCII (texts are byte strings; the letters
  outside ASCII that Go maps to an ASCII capital are left as they are).
\<close>

definition upper_char :: "char \<Rightarrow> char" where
  "upper_char c =
     (case map_of
       [(CHR ''a'', CHR ''A''), (CHR ''b'', CHR ''B''), (CHR ''c'', CHR ''C''), (CHR ''d'', CHR ''D''),
        (CHR ''e'', CHR ''E''), (CHR ''f'', CHR ''F''), (CHR ''g'', CHR ''G''), (CHR ''h'', CHR ''H''),
        (CHR ''i'', CHR ''I''), (CHR ''j'', CHR ''J''), (CHR ''k'', CHR ''K''), (CHR ''l'', CHR ''L''),
        (CHR ''m'', CHR ''M''), (CHR ''n'', CHR ''N''), (CHR ''o'', CHR ''O''), (CHR ''p'', CHR ''P''),
        (CHR ''q'', CHR ''Q''), (CHR ''r'', CHR ''R''), (CHR ''s'', CHR ''S''), (CHR ''t'', CHR ''T''),
        (CHR ''u'', CHR ''U''), (CHR ''v'', CHR ''V''), (CHR ''w'', CHR ''W''), (CHR ''x'', CHR ''X''),
        (CHR ''y'', CHR ''Y''), (CHR ''z'', CHR ''Z'')] c of
        Some u \<Rightarrow> u
      | None \<Rightarrow> c)"

definition ToUpper :: "string \<Rightarrow> string" where
  "ToUpper tt = map upper_char tt"

fun HasPrefix1 :: "string \<Rightarrow> char \<Rightarrow> bool" where
  "HasPrefix1 [] c = False"
| "HasPrefix1 (x # tt) c = (x = c)"

definition mapIdent :: "string \<Rightarrow> Parser \<Rightarrow> (Token \<times> string) \<times> Parser" where
  "mapIdent tt p =
     (let ttU = ToUpper tt in
      if ttU = ''AND'' then ((AND, tt), p)
      else if ttU = ''OR'' then ((OR, tt), p)
      else if ttU = ''XOR'' then ((XOR, tt), p)
      else if ttU = ''NAND'' then ((NAND, tt), p)
      else if ttU = ''IN'' then ((IN, tt), p)
      else if ttU = ''INTERSECTS'' then ((INTERSECTS, tt), p)
      else if ttU = ''HAS'' then ((HAS, tt), p)
      else if ttU = ''NOT'' then
        (case scan p of
           ((_, tmp), p1) \<Rightarrow>
             if ToUpper tmp = ''IN'' then ((NOTIN, ''NOT IN''), p1)
             else ((ILLEGAL, tt), unscan p1))
      else if ttU = ''TRUE'' then ((TRUE, tt), p)
      else if ttU = ''FALSE'' then ((FALSE, tt), p)
      else if HasPrefix1 ttU (CHR ''C'') \<or> HasPrefix1 ttU (CHR ''P'') then ((IDENT, tt), p)
      else ((ILLEGAL, tt), p))"

definition isNumberRune :: "rune \<Rightarrow> bool" where
  "isNumberRune t = (t = scanner_Float \<or> t = scanner_Int)"

definition mapRune :: "nat \<Rightarrow> char \<Rightarrow> string \<Rightarrow> Parser \<Rightarrow> ((Token \<times> string) \<times> Parser) option" where
  "mapRune n c tt p =
     (if c = CHR ''('' then Some ((LPAREN, tt), p)
      else if c = CHR '')'' then Some ((RPAREN, tt), p)
      else if c = CHR ''-'' then
        (case scan p of
           ((t, tt1), p1) \<Rightarrow>
             if isNumberRune t then Some ((NUMBER, ''-'' @ tt1), p1)
             else Some ((ILLEGAL, tt1), p1))
      else if c = CHR ''$'' then
        (case scan p of
           ((t, tt1), p1) \<Rightarrow>
             if isNumberRune t then Some ((IDENT, ''$'' @ tt1), p1)
             else Some ((ILLEGAL, tt1), p1))
      else if c = CHR ''['' then
        (case scanArg n [] [] p of
           None \<Rightarrow> None
         | Some (Ok (t, tt1), p1) \<Rightarrow> Some ((IDENT, tt1), p1)
         | Some (Fail (t, tt1) e, p1) \<Rightarrow>
             (case scanArray n tt1 (unscan p1) of
                None \<Rightarrow> None
              | Some (Ok (t, tt2), p2) \<Rightarrow> Some ((ARRAY, tt2), p2)
              | Some (Fail (t, tt2) e, p2) \<Rightarrow> Some ((ILLEGAL, tt2), p2)
              | Some (FailNil e, p2) \<Rightarrow> Some ((ILLEGAL, []), p2))
         | Some (FailNil e, p1) \<Rightarrow> Some ((ILLEGAL, []), p1))
      else if c = CHR ''!'' then
        (case scan p of
           ((t, tt1), p1) \<Rightarrow>
             if t = Rune (CHR ''='') then Some ((NEQ, ''!=''), p1)
             else if t = Rune (CHR ''~'') then Some ((NEREG, ''!~''), p1)
             else Some ((ILLEGAL, tt1), p1))
      else if c = CHR ''>'' then
        (case scan p of
           ((t, tt1), p1) \<Rightarrow>
             if t = Rune (CHR ''='') then Some ((GTE, ''>=''), p1)
             else Some ((GT, ''>''), unscan p1))
      else if c = CHR ''<'' then
        (case scan p of
           ((t, tt1), p1) \<Rightarrow>
             if t = Rune (CHR ''='') then Some ((LTE, ''<=''), p1)
             else Some ((LT, ''<''), unscan p1))
      else if c = CHR ''='' then
        (case scan p of
           ((t, tt1), p1) \<Rightarrow>
             if t = Rune (CHR ''='') then Some ((EQ, ''==''), p1)
             else if t = Rune (CHR ''~'') then Some ((EREG, ''=~''), p1)
             else Some ((ILLEGAL, tt1), p1))
      else if c = CHR ''/'' then
        (case scanPattern n tt p of
           None \<Rightarrow> None
         | Some (tt1, p1) \<Rightarrow> Some ((STRING, tt1), p1))
      else Some ((ILLEGAL, tt), p))"

text \<open>
  \<^verbatim>\<open>scanWithMapping\<close>: the switch on the rune that \<^verbatim>\<open>scan\<close> returns. A rune with no case
  leaves \<^verbatim>\<open>tok\<close> at its zero value, which is \<^verbatim>\<open>ILLEGAL\<close>.
\<close>

definition scanWithMapping :: "nat \<Rightarrow> Parser \<Rightarrow> ((Token \<times> string) \<times> Parser) option" where
  "scanWithMapping n p =
     (case scan p of
        ((t, tt), p1) \<Rightarrow>
          (case t of
             scanner_EOF \<Rightarrow> Some ((EOF, tt), p1)
           | scanner_Float \<Rightarrow> Some ((NUMBER, tt), p1)
           | scanner_Int \<Rightarrow> Some ((NUMBER, tt), p1)
           | scanner_String \<Rightarrow> Some ((STRING, tt), p1)
           | scanner_Ident \<Rightarrow> Some (mapIdent tt p1)
           | Rune c \<Rightarrow> mapRune n c tt p1
           | _ \<Rightarrow> Some ((ILLEGAL, tt), p1)))"

text \<open>
  The two library calls of the parser are parameters: \<^verbatim>\<open>strconv.ParseFloat\<close>, from the
  text to the value and the error, and \<^verbatim>\<open>json.Unmarshal\<close> into an empty
  \<^verbatim>\<open>[]interface{}\<close>, from the bytes to the elements the slice holds after the call and
  the error.
\<close>

datatype jvalue =
    JSONString string | JSONNumber float64 | JSONBool bool | JSONNull | JSONArray | JSONObject

record extern =
  ParseFloat :: "string \<Rightarrow> float64 \<times> error option"
  Unmarshal :: "string \<Rightarrow> jvalue list \<times> error option"

text \<open>
  The loops that fill \<^verbatim>\<open>values\<close> assert the type of every element without \<^verbatim>\<open>ok\<close>: an
  element of another type panics (\<open>None\<close>).
\<close>

fun assertStrings :: "jvalue list \<Rightarrow> string list option" where
  "assertStrings [] = Some []"
| "assertStrings (JSONString v # mapVal) = map_option ((#) v) (assertStrings mapVal)"
| "assertStrings (v # mapVal) = None"

fun assertNumbers :: "jvalue list \<Rightarrow> float64 list option" where
  "assertNumbers [] = Some []"
| "assertNumbers (JSONNumber v # mapVal) = map_option ((#) v) (assertNumbers mapVal)"
| "assertNumbers (v # mapVal) = None"

text \<open>
  \<open>with_error v err\<close> is \<^verbatim>\<open>return v, err\<close> for a value that is not nil and an error that
  may be.
\<close>

fun with_error :: "'a \<Rightarrow> error option \<Rightarrow> 'a ret" where
  "with_error v None = Ok v"
| "with_error v (Some e) = Fail v e"

text \<open>
  \<open>parseLiteral\<close> is the switch of \<^verbatim>\<open>parseUnaryExpr\<close> on a token that is not \<^verbatim>\<open>LPAREN\<close>.
  The slice \<^verbatim>\<open>lit[1 : len(lit)-1]\<close> panics on a text shorter than two bytes.
\<close>

definition parseArray :: "extern \<Rightarrow> string \<Rightarrow> Expr ret go" where
  "parseArray ext lit =
     (case Unmarshal ext (''['' @ lit @ '']'') of
        (mapVal, err) \<Rightarrow>
          (case mapVal of
             [] \<Rightarrow> Returns (FailNil EmptySliceNotCastable)
           | JSONString t # _ \<Rightarrow>
               (case assertStrings mapVal of
                  None \<Rightarrow> Panics
                | Some values \<Rightarrow> Returns (with_error (SliceStringLiteral values) err))
           | JSONNumber t # _ \<Rightarrow>
               (case assertNumbers mapVal of
                  None \<Rightarrow> Panics
                | Some values \<Rightarrow> Returns (with_error (SliceNumberLiteral values) err))
           | _ \<Rightarrow> Returns (FailNil SliceUnknownType)))"

definition parseLiteral :: "extern \<Rightarrow> Token \<Rightarrow> string \<Rightarrow> Expr ret go" where
  "parseLiteral ext tok lit =
     (if tok = IDENT then Returns (Ok (VarRef lit))
      else if tok = STRING then
        (if length lit < 2 then Panics else Returns (Ok (StringLiteral (butlast (tl lit)))))
      else if tok = NUMBER then
        (case ParseFloat ext lit of
           (v, None) \<Rightarrow> Returns (Ok (NumberLiteral v))
         | (v, Some e) \<Rightarrow> Returns (FailNil UnableToParseNumber))
      else if tok = TRUE \<or> tok = FALSE then Returns (Ok (BooleanLiteral (tok = TRUE)))
      else if tok = ARRAY then parseArray ext lit
      else Returns (FailNil (ParsingError tok lit)))"

text \<open>
  The new root of \<^verbatim>\<open>parseExpr\<close>: when the root is a binary node whose operator binds at
  most as tightly as the operator just read, the new node goes under the root, on its
  right; otherwise the new node is the root.
\<close>

fun newRoot :: "Expr \<Rightarrow> Token \<Rightarrow> Expr \<Rightarrow> Expr" where
  "newRoot (BinaryExpr lhs lop lrhs) op rhs =
     (if Precedence lop \<le> Precedence op
      then BinaryExpr lhs lop (BinaryExpr lrhs op rhs)
      else BinaryExpr (BinaryExpr lhs lop lrhs) op rhs)"
| "newRoot expr op rhs = BinaryExpr expr op rhs"

text \<open>
  \<^verbatim>\<open>parseExpr\<close> and \<^verbatim>\<open>parseUnaryExpr\<close> call each other, and the loop of \<^verbatim>\<open>parseExpr\<close> is
  \<open>parseExpr_loop\<close>; each call and each turn takes one unit of fuel, and \<open>None\<close> is a
  call that has not returned within the fuel. A call returns the expression and the
  error (a nil expression with every error) and leaves the parser in a new state.
\<close>

fun parseExpr :: "extern \<Rightarrow> nat \<Rightarrow> Parser \<Rightarrow> (Expr ret \<times> Parser) go option"
  and parseExpr_loop :: "extern \<Rightarrow> nat \<Rightarrow> Expr \<Rightarrow> Parser \<Rightarrow> (Expr ret \<times> Parser) go option"
  and parseUnaryExpr :: "extern \<Rightarrow> nat \<Rightarrow> Parser \<Rightarrow> (Expr ret \<times> Parser) go option"
where
  "parseExpr ext 0 p = None"
| "parseExpr ext (Suc n) p =
     (case parseUnaryExpr ext n p of
        None \<Rightarrow> None
      | Some Panics \<Rightarrow> Some Panics
      | Some (Returns (Ok expr, p1)) \<Rightarrow> parseExpr_loop ext n expr p1
      | Some (Returns (Fail _ e, p1)) \<Rightarrow> Some (Returns (FailNil e, p1))
      | Some (Returns (FailNil e, p1)) \<Rightarrow> Some (Returns (FailNil e, p1)))"
| "parseExpr_loop ext 0 expr p = None"
| "parseExpr_loop ext (Suc n) expr p =
     (case scanWithMapping n p of
        None \<Rightarrow> None
      | Some ((op, tx), p1) \<Rightarrow>
          if op = ILLEGAL then Some (Returns (FailNil (IllegalToken tx), p1))
          else if \<not> isOperator op then Some (Returns (Ok expr, unscan p1))
          else
            (case parseUnaryExpr ext n p1 of
               None \<Rightarrow> None
             | Some Panics \<Rightarrow> Some Panics
             | Some (Returns (Ok rhs, p2)) \<Rightarrow> parseExpr_loop ext n (newRoot expr op rhs) p2
             | Some (Returns (Fail _ e, p2)) \<Rightarrow> Some (Returns (FailNil e, p2))
             | Some (Returns (FailNil e, p2)) \<Rightarrow> Some (Returns (FailNil e, p2))))"
| "parseUnaryExpr ext 0 p = None"
| "parseUnaryExpr ext (Suc n) p =
     (case scanWithMapping n p of
        None \<Rightarrow> None
      | Some ((tok, lit), p1) \<Rightarrow>
          if tok = LPAREN then
            (case parseExpr ext n p1 of
               None \<Rightarrow> None
             | Some Panics \<Rightarrow> Some Panics
             | Some (Returns (Ok expr, p2)) \<Rightarrow>
                 (case scanWithMapping n p2 of
                    None \<Rightarrow> None
                  | Some ((tok2, _), p3) \<Rightarrow>
                      if tok2 \<noteq> RPAREN then Some (Returns (FailNil MissingRParen, p3))
                      else Some (Returns (Ok (ParenExpr expr), p3)))
             | Some (Returns (Fail _ e, p2)) \<Rightarrow> Some (Returns (FailNil e, p2))
             | Some (Returns (FailNil e, p2)) \<Rightarrow> Some (Returns (FailNil e, p2)))
          else
            (case parseLiteral ext tok lit of
               Panics \<Rightarrow> Some Panics
             | Returns r \<Rightarrow> Some (Returns (r, p1))))"

definition Parse :: "extern \<Rightarrow> nat \<Rightarrow> Parser \<Rightarrow> (Expr ret \<times> Parser) go option" where
  "Parse ext n p = parseExpr ext n p"

text \<open>
  Parsing a text and evaluating the tree, the two calls of the package's usage example;
  an error of the parser ends the run as an error of the evaluation does.
\<close>

definition evalText ::
  "extern \<Rightarrow> matcher \<Rightarrow> nat \<Rightarrow> (rune \<times> string) list \<Rightarrow> bindings \<Rightarrow> (bool \<times> error option) go option"
where
  "evalText ext rx n r args =
     (case Parse ext n (NewParser r) of
        None \<Rightarrow> None
      | Some Panics \<Rightarrow> Some Panics
      | Some (Returns (Ok expr, p)) \<Rightarrow> Some (Evaluate rx expr args)
      | Some (Returns (Fail _ e, p)) \<Rightarrow> Some (Returns (False, Some e))
      | Some (Returns (FailNil e, p)) \<Rightarrow> Some (Returns (False, Some e)))"

section \<open>Notions the properties are stated with\<close>

text \<open>
  \<open>reached rx args e t\<close>: the evaluation of \<open>e\<close> under \<open>args\<close> calls \<^verbatim>\<open>evaluateSubtree\<close> on the
  subtree \<open>t\<close>. The right operand of a binary node is evaluated when the left one has
  returned without an error.
\<close>

fun returns_ok :: "'a ret go \<Rightarrow> bool" where
  "returns_ok (Returns (Ok v)) = True"
| "returns_ok r = False"

fun reached :: "matcher \<Rightarrow> bindings \<Rightarrow> Expr \<Rightarrow> Expr \<Rightarrow> bool" where
  "reached rx args (ParenExpr e) t = (ParenExpr e = t \<or> reached rx args e t)"
| "reached rx args (BinaryExpr lhs op rhs) t =
     (BinaryExpr lhs op rhs = t \<or> reached rx args lhs t \<or>
      (returns_ok (evaluateSubtree rx lhs args) \<and> reached rx args rhs t))"
| "reached rx args e t = (e = t)"

text \<open>The three kinds \<^verbatim>\<open>applyEQ\<close> and \<^verbatim>\<open>applyNQ\<close> compare, and two operands of one kind.\<close>

fun isString :: "Expr \<Rightarrow> bool" where
  "isString (StringLiteral v) = True"
| "isString e = False"

fun isNumber :: "Expr \<Rightarrow> bool" where
  "isNumber (NumberLiteral v) = True"
| "isNumber e = False"

fun isBoolean :: "Expr \<Rightarrow> bool" where
  "isBoolean (BooleanLiteral v) = True"
| "isBoolean e = False"

definition share_kind :: "Expr \<Rightarrow> Expr \<Rightarrow> bool" where
  "share_kind l r =
     (isString l \<and> isString r \<or> isNumber l \<and> isNumber r \<or> isBoolean l \<and> isBoolean r)"

text \<open>A tree with no nil interface in it.\<close>

fun nil_free :: "Expr \<Rightarrow> bool" where
  "nil_free Nil = False"
| "nil_free (ParenExpr e) = nil_free e"
| "nil_free (BinaryExpr lhs op rhs) = (nil_free lhs \<and> nil_free rhs)"
| "nil_free e = True"

text \<open>
  The specification's words for the dependency query: the names in first-encountered
  order, every duplicate after the first occurrence removed.
\<close>

fun first_occurrences :: "string list \<Rightarrow> string list" where
  "first_occurrences [] = []"
| "first_occurrences (x # xs) = x # first_occurrences (filter (\<lambda>y. y \<noteq> x) xs)"

text \<open>The kinds of the decoded elements of an array literal, and a list that mixes them.\<close>

datatype jkind = KindString | KindNumber | KindBool | KindNull | KindArray | KindObject

fun kind_of :: "jvalue \<Rightarrow> jkind" where
  "kind_of (JSONString v) = KindString"
| "kind_of (JSONNumber v) = KindNumber"
| "kind_of (JSONBool v) = KindBool"
| "kind_of JSONNull = KindNull"
| "kind_of JSONArray = KindArray"
| "kind_of JSONObject = KindObject"

fun mixes_kinds :: "jvalue list \<Rightarrow> bool" where
  "mixes_kinds [] = False"
| "mixes_kinds (v # mapVal) = (\<exists>w \<in> set mapVal. kind_of w \<noteq> kind_of v)"

text \<open>
  Library functions for the examples: a matcher that matches nothing, a library that
  rejects every number and every array, and one that decodes the number \<^verbatim>\<open>1\<close> and the
  array \<^verbatim>\<open>["a",1]\<close>.
\<close>

definition noMatch :: matcher where
  "noMatch pattern subject = (False, None)"

definition noLibrary :: extern where
  "noLibrary =
     \<lparr>ParseFloat = (\<lambda>lit. (Fin 0, Some (LibraryError lit))),
      Unmarshal = (\<lambda>b. ([], Some (LibraryError b)))\<rparr>"

definition sampleLibrary :: extern where
  "sampleLibrary =
     \<lparr>ParseFloat = (\<lambda>lit. if lit = ''1'' then (Fin 1, None) else (Fin 0, Some (LibraryError lit))),
      Unmarshal = (\<lambda>b. if b = [CHR ''['', CHR 0x22, CHR ''a'', CHR 0x22, CHR '','', CHR ''1'', CHR '']'']
                       then ([JSONString ''a'', JSONNumber (Fin 1)], None)
                       else ([], Some (LibraryError b)))\<rparr>"

text \<open>The token sequences of the texts the examples parse.\<close>

definition tokens_true_false :: "(rune \<times> string) list" where
  "tokens_true_false = [(scanner_Ident, ''true''), (scanner_Ident, ''false'')]"

definition tokens_true_not_in_true :: "(rune \<times> string) list" where
  "tokens_true_not_in_true =
     [(scanner_Ident, ''true''), (scanner_Ident, ''NOT''), (scanner_Ident, ''IN''),
      (scanner_Ident, ''true'')]"

definition tokens_or_and :: "(rune \<times> string) list" where
  "tokens_or_and =
     [(scanner_Ident, ''false''), (scanner_Ident, ''OR''), (scanner_Ident, ''true''),
      (scanner_Ident, ''AND''), (scanner_Ident, ''false'')]"

definition tokens_or_paren_and :: "(rune \<times> string) list" where
  "tokens_or_paren_and =
     [(scanner_Ident, ''false''), (scanner_Ident, ''OR''), (Rune (CHR ''(''), ''(''),
      (scanner_Ident, ''true''), (scanner_Ident, ''AND''), (scanner_Ident, ''false''),
      (Rune (CHR '')''), '')'')]"

definition tokens_paren_or_and :: "(rune \<times> string) list" where
  "tokens_paren_or_and =
     [(Rune (CHR ''(''), ''(''), (scanner_Ident, ''false''), (scanner_Ident, ''OR''),
      (scanner_Ident, ''true''), (Rune (CHR '')''), '')''), (scanner_Ident, ''AND''),
      (scanner_Ident, ''false'')]"

definition tokens_or_and_eq :: "(rune \<times> string) list" where
  "tokens_or_and_eq =
     [(scanner_Ident, ''false''), (scanner_Ident, ''OR''), (scanner_Ident, ''false''),
      (scanner_Ident, ''AND''), (scanner_Ident, ''false''), (Rune (CHR ''=''), ''=''),
      (Rune (CHR ''=''), ''=''), (scanner_Ident, ''false'')]"

definition tokens_or_and_eq_paren :: "(rune \<times> string) list" where
  "tokens_or_and_eq_paren =
     [(scanner_Ident, ''false''), (scanner_Ident, ''OR''), (Rune (CHR ''(''), ''(''),
      (scanner_Ident, ''false''), (scanner_Ident, ''AND''), (Rune (CHR ''(''), ''(''),
      (scanner_Ident, ''false''), (Rune (CHR ''=''), ''=''), (Rune (CHR ''=''), ''=''),
      (scanner_Ident, ''false''), (Rune (CHR '')''), '')''), (Rune (CHR '')''), '')'')]"

definition tokens_array_a_1 :: "(rune \<times> string) list" where
  "tokens_array_a_1 =
     [(Rune (CHR ''[''), ''[''), (scanner_String, [CHR 0x22, CHR ''a'', CHR 0x22]),
      (Rune (CHR '',''), '',''), (scanner_Int, ''1''), (Rune (CHR '']''), '']'')]"

section \<open>Properties of the evaluator\<close>

lemma returns_ok_iff: "returns_ok x \<longleftrightarrow> (\<exists>v. x = Returns (Ok v))"
  by (cases x rule: returns_ok.cases) auto

text \<open>
  An error of a subtree that the evaluation reaches is the error of the whole tree:
  every caller on the way up returns it at once.
\<close>

lemma reached_error:
  "reached rx args e t \<Longrightarrow> evaluateSubtree rx t args = Returns res \<Longrightarrow> err_of res = Some err
   \<Longrightarrow> \<exists>res'. evaluateSubtree rx e args = Returns res' \<and> err_of res' = Some err"
proof (induction e)
  case (ParenExpr e)
  then show ?case by auto
next
  case (BinaryExpr lhs op rhs)
  show ?case
  proof (cases "BinaryExpr lhs op rhs = t")
    case True
    with BinaryExpr.prems show ?thesis by auto
  next
    case False
    show ?thesis
    proof (cases "reached rx args lhs t")
      case True
      from BinaryExpr.IH(1)[OF True BinaryExpr.prems(2,3)]
      obtain r1 where "evaluateSubtree rx lhs args = Returns r1" "err_of r1 = Some err"
        by blast
      then show ?thesis by (cases r1) auto
    next
      case nl: False
      with False BinaryExpr.prems(1)
      have ok: "returns_ok (evaluateSubtree rx lhs args)" and rr: "reached rx args rhs t"
        by auto
      from ok obtain lv where lv: "evaluateSubtree rx lhs args = Returns (Ok lv)"
        by (auto simp: returns_ok_iff)
      from BinaryExpr.IH(2)[OF rr BinaryExpr.prems(2,3)]
      obtain r2 where "evaluateSubtree rx rhs args = Returns r2" "err_of r2 = Some err"
        by blast
      with lv show ?thesis by (cases r2) auto
    qed
  qed
qed auto

lemma Evaluate_error:
  assumes "evaluateSubtree rx e args = Returns res" "err_of res = Some err"
  shows "Evaluate rx e args = Returns (False, Some err)"
proof (cases "e = Nil")
  case True
  with assms show ?thesis by (auto simp: Evaluate_def)
next
  case False
  with assms show ?thesis by (cases res) (auto simp: Evaluate_def)
qed

lemma Evaluate_reached_error:
  assumes "reached rx args e t" "evaluateSubtree rx t args = Returns res"
    "err_of res = Some err"
  shows "Evaluate rx e args = Returns (False, Some err)"
  using reached_error[OF assms] Evaluate_error by blast

text \<open>Whenever \<^verbatim>\<open>Evaluate\<close> returns an error, the boolean it returns is false.\<close>

lemma Evaluate_error_false:
  assumes "Evaluate rx e args = Returns (b, Some err)"
  shows "b = False"
proof (cases "e = Nil")
  case True
  with assms show ?thesis by (simp add: Evaluate_def)
next
  case False
  with assms show ?thesis
    by (auto simp: Evaluate_def split: go.splits ret.splits Expr.splits)
qed

text \<open>
  C1. \<^verbatim>\<open>Evaluate\<close> does not return on a \<^verbatim>\<open>NOT IN\<close> or \<^verbatim>\<open>!~\<close> node whose operands have the
  wrong kinds: \<^verbatim>\<open>applyIN\<close> and \<^verbatim>\<open>applyEREG\<close> return a nil literal with their error, and
  \<^verbatim>\<open>applyNOTIN\<close> and \<^verbatim>\<open>applyNEREG\<close> write to its \<^verbatim>\<open>Val\<close> field before they look at the
  error. The tree of the first run is the one \<^verbatim>\<open>Parse\<close> returns for the text
  \<^verbatim>\<open>true NOT IN true\<close>.
\<close>

theorem Evaluate_negated_operator_panics:
  "Evaluate rx (BinaryExpr (BooleanLiteral True) NOTIN (BooleanLiteral True)) args = Panics \<and>
   Evaluate rx (BinaryExpr (BooleanLiteral True) NEREG (BooleanLiteral True)) args = Panics \<and>
   Parse noLibrary 20 (NewParser tokens_true_not_in_true) =
     Some (Returns (Ok (BinaryExpr (BooleanLiteral True) NOTIN (BooleanLiteral True)),
       \<lparr>scanner = [], buf_tok = scanner_EOF, buf_tt = [], buf_n = 1\<rparr>)) \<and>
   evalText noLibrary noMatch 20 tokens_true_not_in_true Map.empty = Some Panics"
proof -
  have "Parse noLibrary 20 (NewParser tokens_true_not_in_true) =
     Some (Returns (Ok (BinaryExpr (BooleanLiteral True) NOTIN (BooleanLiteral True)),
       \<lparr>scanner = [], buf_tok = scanner_EOF, buf_tt = [], buf_n = 1\<rparr>))"
    by code_simp
  moreover have "evalText noLibrary noMatch 20 tokens_true_not_in_true Map.empty = Some Panics"
    by code_simp
  ultimately show ?thesis
    by (simp add: Evaluate_def applyNOTIN_def applyNEREG_def applyEREG_def)
qed

text \<open>
  C2, as stated, fails: a string compared with a boolean is an error, for \<^verbatim>\<open>==\<close> and for
  \<^verbatim>\<open>!=\<close>, and \<^verbatim>\<open>!=\<close> on a left operand that is a set is false, not true.
\<close>

theorem applyEQ_mismatch_counterexample:
  "\<not> share_kind (StringLiteral ''true'') (BooleanLiteral True) \<and>
   applyEQ (StringLiteral ''true'') (BooleanLiteral True) = Fail False CannotCompareString \<and>
   applyNQ (StringLiteral ''true'') (BooleanLiteral True) = Fail False CannotCompareString \<and>
   \<not> share_kind (SliceStringLiteral [''a'']) (BooleanLiteral True) \<and>
   applyNQ (SliceStringLiteral [''a'']) (BooleanLiteral True) = Ok False"
  by (simp add: share_kind_def applyEQ_def applyNQ_def)

text \<open>
  C2, amended. For two operands that share none of the kinds string, number and
  boolean: when the left operand is of one of the three kinds, \<^verbatim>\<open>==\<close> and \<^verbatim>\<open>!=\<close> both
  return the error of that kind, with a false literal; when the left operand is of none
  of them (a set, say), \<^verbatim>\<open>==\<close> and \<^verbatim>\<open>!=\<close> both return false with no error.
\<close>

theorem applyEQ_applyNQ_mismatch:
  assumes "\<not> share_kind l r"
  shows "(isString l \<longrightarrow> applyEQ l r = Fail False CannotCompareString \<and>
                        applyNQ l r = Fail False CannotCompareString) \<and>
         (isNumber l \<longrightarrow> applyEQ l r = Fail False CannotCompareNumber \<and>
                        applyNQ l r = Fail False CannotCompareNumber) \<and>
         (isBoolean l \<longrightarrow> applyEQ l r = Fail False CannotCompareBoolean \<and>
                         applyNQ l r = Fail False CannotCompareBoolean) \<and>
         (\<not> isString l \<and> \<not> isNumber l \<and> \<not> isBoolean l \<longrightarrow>
            applyEQ l r = Ok False \<and> applyNQ l r = Ok False)"
  using assms by (cases l; cases r) (auto simp: share_kind_def applyEQ_def applyNQ_def)

theorem applyEQ_applyNQ_mismatch_witness:
  "\<not> share_kind (NumberLiteral (Fin 3)) (StringLiteral ''3'') \<and>
   isNumber (NumberLiteral (Fin 3)) \<and>
   applyEQ (NumberLiteral (Fin 3)) (StringLiteral ''3'') = Fail False CannotCompareNumber \<and>
   applyNQ (NumberLiteral (Fin 3)) (StringLiteral ''3'') = Fail False CannotCompareNumber"
proof -
  have h: "\<not> share_kind (NumberLiteral (Fin 3)) (StringLiteral ''3'')"
    by (simp add: share_kind_def)
  from applyEQ_applyNQ_mismatch[OF h] h show ?thesis by simp
qed

lemma in_strings_eq: "in_strings a b found = (found \<or> a \<in> set b)"
  by (induction b arbitrary: found) auto

lemma in_numbers_eq: "in_numbers a b found = (found \<or> (\<exists>e \<in> set b. float_eq a e))"
  by (induction b arbitrary: found) auto

lemma float_eq_iff: "float_eq a e \<longleftrightarrow> a \<noteq> NaN \<and> a = e"
  by (cases a; cases e) auto

text \<open>
  C5. On a string and a set of strings, and on a number and a set of numbers, \<^verbatim>\<open>IN\<close> is
  true exactly when an element of the set equals the left operand, and \<^verbatim>\<open>NOT IN\<close> is
  its negation; both return no error. Equality of numbers is Go's \<^verbatim>\<open>==\<close>: it is
  membership in the set for every left operand but a NaN, which equals nothing.
\<close>

theorem applyIN_membership:
  "Evaluate rx (BinaryExpr (StringLiteral a) IN (SliceStringLiteral b)) args
     = Returns (a \<in> set b, None) \<and>
   Evaluate rx (BinaryExpr (StringLiteral a) NOTIN (SliceStringLiteral b)) args
     = Returns (a \<notin> set b, None) \<and>
   Evaluate rx (BinaryExpr (NumberLiteral x) IN (SliceNumberLiteral ys)) args
     = Returns (\<exists>y \<in> set ys. float_eq x y, None) \<and>
   Evaluate rx (BinaryExpr (NumberLiteral x) NOTIN (SliceNumberLiteral ys)) args
     = Returns (\<not> (\<exists>y \<in> set ys. float_eq x y), None) \<and>
   (x \<noteq> NaN \<longrightarrow> (\<exists>y \<in> set ys. float_eq x y) = (x \<in> set ys)) \<and>
   applyOperator rx IN (StringLiteral a) (SliceStringLiteral b) = Returns (Ok (a \<in> set b)) \<and>
   applyOperator rx NOTIN (StringLiteral a) (SliceStringLiteral b) = Returns (Ok (a \<notin> set b))"
  by (auto simp: Evaluate_def applyNOTIN_def in_strings_eq in_numbers_eq float_eq_iff)

theorem applyIN_membership_witness:
  "Evaluate noMatch (BinaryExpr (StringLiteral ''findme'') IN
      (SliceStringLiteral [''notme'', ''findme''])) Map.empty = Returns (True, None) \<and>
   Evaluate noMatch (BinaryExpr (StringLiteral ''findme'') NOTIN
      (SliceStringLiteral [''notme'', ''findme''])) Map.empty = Returns (False, None) \<and>
   Evaluate noMatch (BinaryExpr (NumberLiteral (Fin 2)) IN
      (SliceNumberLiteral [Fin 1, Fin 2])) Map.empty = Returns (True, None)"
  using applyIN_membership[of noMatch "''findme''" "[''notme'', ''findme'']" Map.empty
      "Fin 2" "[Fin 1, Fin 2]"]
  by simp

text \<open>
  C7. When the evaluation reaches a reference to a name that the bindings do not hold,
  \<^verbatim>\<open>Evaluate\<close> returns false with the error that the argument was not found.
\<close>

theorem Evaluate_missing_variable:
  assumes "args x = None" "reached rx args e (VarRef x)"
  shows "Evaluate rx e args = Returns (False, Some (ArgumentNotFound x))"
  by (rule Evaluate_reached_error[OF assms(2), where res = "Fail falseExpr (ArgumentNotFound x)"])
     (simp_all add: assms(1))

theorem Evaluate_missing_variable_witness:
  "Map.empty ''missing'' = (None :: hostval option) \<and>
   reached noMatch Map.empty
     (BinaryExpr (BooleanLiteral True) AND (ParenExpr (VarRef ''missing''))) (VarRef ''missing'') \<and>
   Evaluate noMatch (BinaryExpr (BooleanLiteral True) AND (ParenExpr (VarRef ''missing'')))
     Map.empty = Returns (False, Some (ArgumentNotFound ''missing''))"
proof -
  have h1: "Map.empty ''missing'' = (None :: hostval option)" by simp
  have h2: "reached noMatch Map.empty
     (BinaryExpr (BooleanLiteral True) AND (ParenExpr (VarRef ''missing''))) (VarRef ''missing'')"
    by simp
  from Evaluate_missing_variable[OF h1 h2] h1 h2 show ?thesis by blast
qed

text \<open>
  C8. A parenthesised expression evaluates as the expression inside: the same boolean
  and the same error from \<^verbatim>\<open>Evaluate\<close>, the same result from \<^verbatim>\<open>evaluateSubtree\<close>, a panic
  included.
\<close>

theorem Evaluate_ParenExpr:
  "Evaluate rx (ParenExpr e) args = Evaluate rx e args \<and>
   evaluateSubtree rx (ParenExpr e) args = evaluateSubtree rx e args"
  by (cases "e = Nil") (auto simp: Evaluate_def)

theorem Evaluate_ParenExpr_witness:
  "Evaluate noMatch (ParenExpr (BinaryExpr (BooleanLiteral True) XOR (BooleanLiteral False)))
     Map.empty = Returns (True, None) \<and>
   Evaluate noMatch (BinaryExpr (BooleanLiteral True) XOR (BooleanLiteral False))
     Map.empty = Returns (True, None)"
  using Evaluate_ParenExpr[of noMatch
      "BinaryExpr (BooleanLiteral True) XOR (BooleanLiteral False)" Map.empty]
  by (simp add: Evaluate_def applyXOR_def)

text \<open>
  C10. On the nil expression \<^verbatim>\<open>Evaluate\<close> returns false and the error of the nil
  expression, and so does \<^verbatim>\<open>evaluateSubtree\<close> with \<^verbatim>\<open>falseExpr\<close>; a nil subtree that the
  evaluation reaches gives the same result of \<^verbatim>\<open>Evaluate\<close>.
\<close>

theorem Evaluate_nil:
  "Evaluate rx Nil args = Returns (False, Some NilExpression) \<and>
   evaluateSubtree rx Nil args = Returns (Fail (BooleanLiteral False) NilExpression) \<and>
   (reached rx args e Nil \<longrightarrow> Evaluate rx e args = Returns (False, Some NilExpression))"
proof -
  have "evaluateSubtree rx Nil args = Returns (Fail falseExpr NilExpression)" by simp
  then show ?thesis
    using Evaluate_reached_error[of rx args e Nil "Fail falseExpr NilExpression" NilExpression]
    by (simp add: Evaluate_def falseExpr_def)
qed

theorem Evaluate_nil_witness:
  "reached noMatch Map.empty (BinaryExpr (BooleanLiteral True) OR (ParenExpr Nil)) Nil \<and>
   Evaluate noMatch (BinaryExpr (BooleanLiteral True) OR (ParenExpr Nil)) Map.empty
     = Returns (False, Some NilExpression)"
proof -
  have h: "reached noMatch Map.empty (BinaryExpr (BooleanLiteral True) OR (ParenExpr Nil)) Nil"
    by simp
  with Evaluate_nil[of noMatch Map.empty "BinaryExpr (BooleanLiteral True) OR (ParenExpr Nil)"]
  show ?thesis by blast
qed


section \<open>Properties of the dependency query\<close>

lemma set_first_occurrences: "set (first_occurrences xs) = set xs"
  by (induction xs rule: first_occurrences.induct) auto

lemma distinct_first_occurrences: "distinct (first_occurrences xs)"
  by (induction xs rule: first_occurrences.induct) (auto simp: set_first_occurrences)

lemma removeDuplicates_loop_eq:
  "dom seen = set result \<Longrightarrow>
   removeDuplicates_loop a result seen =
     result @ first_occurrences (filter (\<lambda>x. x \<notin> set result) a)"
proof (induction a arbitrary: result seen)
  case Nil
  then show ?case by simp
next
  case (Cons val a)
  show ?case
  proof (cases "seen val = None")
    case True
    with Cons.prems have fresh: "val \<notin> set result" by auto
    have d: "dom (seen(val \<mapsto> val)) = set (result @ [val])"
      using Cons.prems by auto
    have f: "filter (\<lambda>x. x \<notin> set (result @ [val])) a =
             filter (\<lambda>y. y \<noteq> val) (filter (\<lambda>x. x \<notin> set result) a)"
      by (induction a) auto
    have "removeDuplicates_loop (val # a) result seen =
            removeDuplicates_loop a (result @ [val]) (seen(val \<mapsto> val))"
      using True by simp
    also have "\<dots> = (result @ [val]) @
            first_occurrences (filter (\<lambda>x. x \<notin> set (result @ [val])) a)"
      by (rule Cons.IH[OF d])
    also have "\<dots> = result @
            val # first_occurrences (filter (\<lambda>y. y \<noteq> val) (filter (\<lambda>x. x \<notin> set result) a))"
      by (simp only: f append_assoc append_Cons append_Nil)
    also have "\<dots> = result @ first_occurrences (filter (\<lambda>x. x \<notin> set result) (val # a))"
      using fresh by (simp del: filter_filter)
    finally show ?thesis .
  next
    case False
    with Cons.prems have seen: "val \<in> set result" by auto
    have "removeDuplicates_loop (val # a) result seen = removeDuplicates_loop a result seen"
      using False by auto
    also have "\<dots> = result @ first_occurrences (filter (\<lambda>x. x \<notin> set result) a)"
      by (rule Cons.IH[OF Cons.prems])
    finally show ?thesis using seen by simp
  qed
qed

lemma removeDuplicates_eq: "removeDuplicates a = first_occurrences a"
  by (simp add: removeDuplicates_def removeDuplicates_loop_eq)

lemma Args_nil_free: "nil_free e \<Longrightarrow> \<exists>a. Args e = Returns a"
  by (induction e) auto

text \<open>
  C9. On a tree with no nil in it, \<^verbatim>\<open>Variables\<close> returns the names that \<^verbatim>\<open>Args\<close> lists,
  in the order of their first occurrence, each of them once.
\<close>

theorem Variables_first_occurrences:
  assumes "nil_free e"
  shows "\<exists>a. Args e = Returns a \<and> Variables e = Returns (first_occurrences a) \<and>
             distinct (first_occurrences a) \<and> set (first_occurrences a) = set a"
proof -
  from Args_nil_free[OF assms] obtain a where a: "Args e = Returns a" by blast
  then have "Variables e = Returns (first_occurrences a)"
    by (simp add: Variables_def removeDuplicates_eq)
  with a show ?thesis
    using distinct_first_occurrences set_first_occurrences by blast
qed

theorem Variables_first_occurrences_witness:
  "nil_free (BinaryExpr (BinaryExpr (VarRef ''b'') GT (VarRef ''a'')) AND
       (ParenExpr (BinaryExpr (VarRef ''b'') LT (VarRef ''c'')))) \<and>
   Variables (BinaryExpr (BinaryExpr (VarRef ''b'') GT (VarRef ''a'')) AND
       (ParenExpr (BinaryExpr (VarRef ''b'') LT (VarRef ''c'')))) = Returns [''b'', ''a'', ''c'']"
proof -
  have h: "nil_free (BinaryExpr (BinaryExpr (VarRef ''b'') GT (VarRef ''a'')) AND
       (ParenExpr (BinaryExpr (VarRef ''b'') LT (VarRef ''c''))))"
    by simp
  from Variables_first_occurrences[OF h] h show ?thesis by auto
qed

section \<open>Properties of the parser\<close>

text \<open>
  Fuel only bounds the loops: a call that returns within some fuel returns the same
  with any more fuel.
\<close>

lemma scanArray_fuel:
  "scanArray n tt p = Some r \<Longrightarrow> scanArray (n + k) tt p = Some r"
proof (induction n arbitrary: tt p)
  case 0
  then show ?case by simp
next
  case (Suc n)
  obtain t ttTmp p1 where s: "scan p = ((t, ttTmp), p1)" by (metis prod.exhaust)
  show ?case
  proof (cases "t = Rune (CHR '']'')")
    case True
    with s Suc.prems show ?thesis by simp
  next
    case False
    with s Suc.prems have "scanArray n (tt @ [] @ ttTmp) p1 = Some r" by simp
    from Suc.IH[OF this] s False show ?thesis by simp
  qed
qed

lemma scanPattern_fuel:
  "scanPattern n tt p = Some r \<Longrightarrow> scanPattern (n + k) tt p = Some r"
proof (induction n arbitrary: tt p)
  case 0
  then show ?case by simp
next
  case (Suc n)
  obtain t ttTmp p1 where s: "scan p = ((t, ttTmp), p1)" by (metis prod.exhaust)
  show ?case
  proof (cases "t = Rune (CHR ''/'')")
    case True
    with s Suc.prems show ?thesis by simp
  next
    case False
    with s Suc.prems have "scanPattern n (tt @ ttTmp) p1 = Some r" by simp
    from Suc.IH[OF this] s False show ?thesis by simp
  qed
qed

lemma scanArg_fuel:
  "scanArg n tt sep p = Some r \<Longrightarrow> scanArg (n + k) tt sep p = Some r"
proof (induction n arbitrary: tt sep p)
  case 0
  then show ?case by simp
next
  case (Suc n)
  obtain t ttTmp p1 where s1: "scan p = ((t, ttTmp), p1)" by (metis prod.exhaust)
  show ?case
  proof (cases "t = Rune (CHR ''@'')")
    case True
    with s1 Suc.prems have "scanArg n (tt @ sep @ ttTmp) sep p1 = Some r" by simp
    from Suc.IH[OF this] s1 True show ?thesis by simp
  next
    case at: False
    obtain t2 x2 p2 where s2: "scan p1 = ((t2, x2), p2)" by (metis prod.exhaust)
    show ?thesis
    proof (cases "t2 = Rune (CHR '']'')")
      case False
      with s1 s2 at Suc.prems show ?thesis by simp
    next
      case True
      obtain ti x3 p3 where s3: "scan p2 = ((ti, x3), p3)" by (metis prod.exhaust)
      show ?thesis
      proof (cases "ti = Rune (CHR ''['')")
        case False
        with s1 s2 s3 at True Suc.prems show ?thesis by simp
      next
        case next_arg: True
        with s1 s2 s3 at True Suc.prems
        have "scanArg n (tt @ sep @ ttTmp) ''.'' p3 = Some r" by simp
        from Suc.IH[OF this] s1 s2 s3 at True next_arg show ?thesis by simp
      qed
    qed
  qed
qed

lemma mapRune_fuel:
  assumes "mapRune n c tt p = Some r"
  shows "mapRune (n + k) c tt p = Some r"
proof (cases "c = CHR ''[''")
  case True
  show ?thesis
  proof (cases "scanArg n [] [] p")
    case None
    with True assms show ?thesis by (simp add: mapRune_def)
  next
    case (Some a)
    note arg = scanArg_fuel[OF Some, of k]
    obtain res p1 where a: "a = (res, p1)" by (metis prod.exhaust)
    show ?thesis
    proof (cases res)
      case (Ok x)
      with True assms Some arg a show ?thesis
        by (simp add: mapRune_def split: prod.splits)
    next
      case (Fail x e)
      obtain t tt1 where x: "x = (t, tt1)" by (metis prod.exhaust)
      show ?thesis
      proof (cases "scanArray n tt1 (unscan p1)")
        case None
        with True assms Some a Fail x show ?thesis by (simp add: mapRune_def)
      next
        case arr: (Some b)
        note arr' = scanArray_fuel[OF arr, of k]
        from True assms Some arg a Fail x arr arr' show ?thesis
          by (simp add: mapRune_def)
      qed
    next
      case (FailNil e)
      with True assms Some arg a show ?thesis by (simp add: mapRune_def)
    qed
  qed
next
  case nb: False
  show ?thesis
  proof (cases "c = CHR ''/''")
    case True
    show ?thesis
    proof (cases "scanPattern n tt p")
      case None
      with True assms show ?thesis by (simp add: mapRune_def)
    next
      case (Some a)
      from scanPattern_fuel[OF Some, of k] Some True assms show ?thesis
        by (simp add: mapRune_def)
    qed
  next
    case False
    with nb have "mapRune (n + k) c tt p = mapRune n c tt p" by (simp add: mapRune_def)
    with assms show ?thesis by simp
  qed
qed

lemma scanWithMapping_fuel:
  assumes "scanWithMapping n p = Some r"
  shows "scanWithMapping (n + k) p = Some r"
proof -
  obtain t tt p1 where s: "scan p = ((t, tt), p1)" by (metis prod.exhaust)
  show ?thesis
  proof (cases t)
    case (Rune c)
    with s assms have "mapRune n c tt p1 = Some r" by (simp add: scanWithMapping_def)
    from mapRune_fuel[OF this, of k] s Rune show ?thesis by (simp add: scanWithMapping_def)
  qed (use s assms in \<open>simp_all add: scanWithMapping_def\<close>)
qed


lemma parse_fuel:
  "(\<forall>p r. parseExpr ext n p = Some r \<longrightarrow> parseExpr ext (n + k) p = Some r) \<and>
   (\<forall>expr p r. parseExpr_loop ext n expr p = Some r \<longrightarrow>
      parseExpr_loop ext (n + k) expr p = Some r) \<and>
   (\<forall>p r. parseUnaryExpr ext n p = Some r \<longrightarrow> parseUnaryExpr ext (n + k) p = Some r)"
proof (induction n)
  case 0
  show ?case by simp
next
  case (Suc n)
  from Suc have e: "\<And>p r. parseExpr ext n p = Some r \<Longrightarrow> parseExpr ext (n + k) p = Some r"
    and l: "\<And>expr p r. parseExpr_loop ext n expr p = Some r \<Longrightarrow>
              parseExpr_loop ext (n + k) expr p = Some r"
    and u: "\<And>p r. parseUnaryExpr ext n p = Some r \<Longrightarrow>
              parseUnaryExpr ext (n + k) p = Some r"
    by blast+
  have s: "\<And>p r. scanWithMapping n p = Some r \<Longrightarrow> scanWithMapping (n + k) p = Some r"
    by (rule scanWithMapping_fuel)
  have E: "parseExpr ext (Suc n + k) p = Some r" if h: "parseExpr ext (Suc n) p = Some r" for p r
  proof (cases "parseUnaryExpr ext n p")
    case None
    with h show ?thesis by auto
  next
    case (Some a)
    note a' = u[OF Some]
    show ?thesis
    proof (cases a)
      case Panics
      with h Some a' show ?thesis by auto
    next
      case (Returns b)
      obtain res p1 where b: "b = (res, p1)" by (metis prod.exhaust)
      show ?thesis
      proof (cases res)
        case (Ok expr)
        with h Some Returns b have "parseExpr_loop ext n expr p1 = Some r" by simp
        from l[OF this] Some a' Returns b Ok show ?thesis by auto
      qed (use h Some a' Returns b in auto)
    qed
  qed
  have L: "parseExpr_loop ext (Suc n + k) expr p = Some r"
    if h: "parseExpr_loop ext (Suc n) expr p = Some r" for expr p r
  proof (cases "scanWithMapping n p")
    case None
    with h show ?thesis by auto
  next
    case (Some a)
    note a' = s[OF Some]
    obtain op tx p1 where a: "a = ((op, tx), p1)" by (metis prod.exhaust)
    show ?thesis
    proof (cases "op = ILLEGAL \<or> \<not> isOperator op")
      case True
      with h Some a' a show ?thesis by auto
    next
      case False
      show ?thesis
      proof (cases "parseUnaryExpr ext n p1")
        case None
        with h Some a False show ?thesis by auto
      next
        case un: (Some c)
        note c' = u[OF un]
        show ?thesis
        proof (cases c)
          case Panics
          with h Some a' a False un c' show ?thesis by auto
        next
          case (Returns b)
          obtain res p2 where b: "b = (res, p2)" by (metis prod.exhaust)
          show ?thesis
          proof (cases res)
            case (Ok rhs)
            with h Some a False un Returns b
            have "parseExpr_loop ext n (newRoot expr op rhs) p2 = Some r" by simp
            from l[OF this] Some a' a False un c' Returns b Ok show ?thesis by auto
          qed (use h Some a' a False un c' Returns b in auto)
        qed
      qed
    qed
  qed
  have U: "parseUnaryExpr ext (Suc n + k) p = Some r"
    if h: "parseUnaryExpr ext (Suc n) p = Some r" for p r
  proof (cases "scanWithMapping n p")
    case None
    with h show ?thesis by auto
  next
    case (Some a)
    note a' = s[OF Some]
    obtain tok lit p1 where a: "a = ((tok, lit), p1)" by (metis prod.exhaust)
    show ?thesis
    proof (cases "tok = LPAREN")
      case False
      with h Some a' a show ?thesis by auto
    next
      case True
      show ?thesis
      proof (cases "parseExpr ext n p1")
        case None
        with h Some a True show ?thesis by auto
      next
        case ex: (Some c)
        note c' = e[OF ex]
        show ?thesis
        proof (cases c)
          case Panics
          with h Some a' a True ex c' show ?thesis by auto
        next
          case (Returns b)
          obtain res p2 where b: "b = (res, p2)" by (metis prod.exhaust)
          show ?thesis
          proof (cases res)
            case (Ok expr)
            show ?thesis
            proof (cases "scanWithMapping n p2")
              case None
              with h Some a True ex Returns b Ok show ?thesis by auto
            next
              case close: (Some d)
              note d' = s[OF close]
              from h Some a' a True ex c' Returns b Ok close d' show ?thesis by auto
            qed
          qed (use h Some a' a True ex c' Returns b in auto)
        qed
      qed
    qed
  qed
  from E L U show ?case by blast
qed

lemma Parse_fuel: "Parse ext n p = Some r \<Longrightarrow> Parse ext (n + k) p = Some r"
  using parse_fuel[of ext n k] by (simp add: Parse_def)

lemma evalText_fuel:
  assumes "evalText ext rx n r args = Some x"
  shows "evalText ext rx (n + k) r args = Some x"
proof (cases "Parse ext n (NewParser r)")
  case None
  with assms show ?thesis by (simp add: evalText_def)
next
  case (Some a)
  from Parse_fuel[OF Some, of k] Some assms show ?thesis by (simp add: evalText_def)
qed

text \<open>
  The loop of \<^verbatim>\<open>parseExpr\<close> ends at the first token that is no operator: with an error
  when the token is \<^verbatim>\<open>ILLEGAL\<close>, and otherwise with the expression read so far, the token
  pushed back.
\<close>

lemma parseExpr_loop_stops:
  assumes "scanWithMapping n p1 = Some ((tok, tx), p2)" "\<not> isOperator tok"
  shows "parseExpr_loop ext (Suc n) expr p1 =
           Some (Returns (if tok = ILLEGAL then (FailNil (IllegalToken tx), p2)
                          else (Ok expr, unscan p2)))"
  using assms by simp

text \<open>
  C3, as stated, fails: on the tokens of the text \<^verbatim>\<open>true false\<close>, \<^verbatim>\<open>Parse\<close> returns the
  tree of \<^verbatim>\<open>true\<close> and no error; the second literal stays in the buffer, unread.
\<close>

theorem Parse_trailing_literal_counterexample:
  "Parse noLibrary 20 (NewParser [(scanner_Ident, ''true''), (scanner_Ident, ''false'')]) =
     Some (Returns (Ok (BooleanLiteral True),
       \<lparr>scanner = [], buf_tok = scanner_Ident, buf_tt = ''false'', buf_n = 1\<rparr>))"
  by code_simp

text \<open>
  C3, amended. \<^verbatim>\<open>Parse\<close> does not look for the end of the input. After a complete
  expression the next token decides: an operator continues the expression; an
  \<^verbatim>\<open>ILLEGAL\<close> token makes \<^verbatim>\<open>Parse\<close> return an error and no tree; any other token, the
  end of the input or not, ends the expression, is pushed back, and \<^verbatim>\<open>Parse\<close> returns
  the tree of the expression before it with no error. The first part is the loop after
  any expression, the second part \<^verbatim>\<open>Parse\<close> after one operand; both hold with any more
  fuel.
\<close>

theorem Parse_stops_at_non_operator:
  assumes "scanWithMapping n p1 = Some ((tok, tx), p2)" "\<not> isOperator tok"
  shows "parseExpr_loop ext (Suc n + k) expr p1 =
           Some (Returns (if tok = ILLEGAL then (FailNil (IllegalToken tx), p2)
                          else (Ok expr, unscan p2))) \<and>
         (parseUnaryExpr ext (Suc n) p = Some (Returns (Ok expr, p1)) \<longrightarrow>
          Parse ext (Suc (Suc n) + k) p =
            Some (Returns (if tok = ILLEGAL then (FailNil (IllegalToken tx), p2)
                           else (Ok expr, unscan p2))))"
proof -
  have loop: "parseExpr_loop ext (Suc n) expr p1 =
           Some (Returns (if tok = ILLEGAL then (FailNil (IllegalToken tx), p2)
                          else (Ok expr, unscan p2)))"
    by (rule parseExpr_loop_stops[OF assms])
  have "Parse ext (Suc (Suc n)) p = parseExpr_loop ext (Suc n) expr p1"
    if "parseUnaryExpr ext (Suc n) p = Some (Returns (Ok expr, p1))"
    unfolding Parse_def parseExpr.simps using that by simp
  with loop have "Parse ext (Suc (Suc n)) p =
            Some (Returns (if tok = ILLEGAL then (FailNil (IllegalToken tx), p2)
                           else (Ok expr, unscan p2)))"
    if "parseUnaryExpr ext (Suc n) p = Some (Returns (Ok expr, p1))"
    using that by simp
  from Parse_fuel[OF this, of k] loop parse_fuel[of ext "Suc n" k]
  show ?thesis by blast
qed

theorem Parse_stops_at_non_operator_witness:
  "scanWithMapping 3
     \<lparr>scanner = [(scanner_Ident, ''false'')], buf_tok = scanner_Ident, buf_tt = ''true'',
      buf_n = 0\<rparr> =
     Some ((FALSE, ''false''),
       \<lparr>scanner = [], buf_tok = scanner_Ident, buf_tt = ''false'', buf_n = 0\<rparr>) \<and>
   \<not> isOperator FALSE \<and>
   parseUnaryExpr noLibrary (Suc 3) (NewParser tokens_true_false) =
     Some (Returns (Ok (BooleanLiteral True),
       \<lparr>scanner = [(scanner_Ident, ''false'')], buf_tok = scanner_Ident, buf_tt = ''true'',
        buf_n = 0\<rparr>)) \<and>
   Parse noLibrary (Suc (Suc 3)) (NewParser tokens_true_false) =
     Some (Returns (Ok (BooleanLiteral True),
       \<lparr>scanner = [], buf_tok = scanner_Ident, buf_tt = ''false'', buf_n = 1\<rparr>))"
proof -
  have h1: "scanWithMapping 3
     \<lparr>scanner = [(scanner_Ident, ''false'')], buf_tok = scanner_Ident, buf_tt = ''true'',
      buf_n = 0\<rparr> =
     Some ((FALSE, ''false''),
       \<lparr>scanner = [], buf_tok = scanner_Ident, buf_tt = ''false'', buf_n = 0\<rparr>)"
    by code_simp
  have h2: "\<not> isOperator FALSE" by simp
  have h3: "parseUnaryExpr noLibrary (Suc 3) (NewParser tokens_true_false) =
     Some (Returns (Ok (BooleanLiteral True),
       \<lparr>scanner = [(scanner_Ident, ''false'')], buf_tok = scanner_Ident, buf_tt = ''true'',
        buf_n = 0\<rparr>))"
    by code_simp
  from Parse_stops_at_non_operator[OF h1 h2, of noLibrary 0 "BooleanLiteral True"
      "NewParser tokens_true_false"] h1 h2 h3
  show ?thesis by (simp add: unscan_def)
qed

text \<open>
  With two levels in one text the tree follows the precedence: the texts
  \<^verbatim>\<open>false OR true AND false\<close>, \<^verbatim>\<open>false OR (true AND false)\<close> and
  \<^verbatim>\<open>(false OR true) AND false\<close> all evaluate to false.
\<close>

lemma evalText_or_and:
  "evalText noLibrary noMatch 20 tokens_or_and Map.empty = Some (Returns (False, None)) \<and>
   evalText noLibrary noMatch 20 tokens_or_paren_and Map.empty = Some (Returns (False, None)) \<and>
   evalText noLibrary noMatch 20 tokens_paren_or_and Map.empty = Some (Returns (False, None))"
  by code_simp

text \<open>
  C4. With three levels in one text the tree does not follow the precedence:
  \<^verbatim>\<open>parseExpr\<close> compares the new operator with the operator at the root only. The text
  \<^verbatim>\<open>false OR false AND false == false\<close> is read as
  \<^verbatim>\<open>false OR ((false AND false) == false)\<close> and evaluates to true; with the grouping of
  the precedence written out, \<^verbatim>\<open>false OR (false AND (false == false))\<close>, it evaluates to
  false.
\<close>

theorem parseExpr_precedence_below_root:
  "Parse noLibrary (20 + k) (NewParser tokens_or_and_eq) =
     Some (Returns (Ok (BinaryExpr (BooleanLiteral False) OR
        (BinaryExpr (BinaryExpr (BooleanLiteral False) AND (BooleanLiteral False)) EQ
           (BooleanLiteral False))),
       \<lparr>scanner = [], buf_tok = scanner_EOF, buf_tt = [], buf_n = 1\<rparr>)) \<and>
   evalText noLibrary noMatch (20 + k) tokens_or_and_eq Map.empty =
     Some (Returns (True, None)) \<and>
   evalText noLibrary noMatch (20 + k) tokens_or_and_eq_paren Map.empty =
     Some (Returns (False, None))"
proof -
  have "Parse noLibrary 20 (NewParser tokens_or_and_eq) =
     Some (Returns (Ok (BinaryExpr (BooleanLiteral False) OR
        (BinaryExpr (BinaryExpr (BooleanLiteral False) AND (BooleanLiteral False)) EQ
           (BooleanLiteral False))),
       \<lparr>scanner = [], buf_tok = scanner_EOF, buf_tt = [], buf_n = 1\<rparr>))"
    by code_simp
  moreover have "evalText noLibrary noMatch 20 tokens_or_and_eq Map.empty =
     Some (Returns (True, None))"
    by code_simp
  moreover have "evalText noLibrary noMatch 20 tokens_or_and_eq_paren Map.empty =
     Some (Returns (False, None))"
    by code_simp
  ultimately show ?thesis
    using Parse_fuel evalText_fuel by blast
qed

lemma assertStrings_None_iff:
  "assertStrings mapVal = None \<longleftrightarrow> (\<exists>v \<in> set mapVal. kind_of v \<noteq> KindString)"
  by (induction mapVal rule: assertStrings.induct) auto

lemma assertNumbers_None_iff:
  "assertNumbers mapVal = None \<longleftrightarrow> (\<exists>v \<in> set mapVal. kind_of v \<noteq> KindNumber)"
  by (induction mapVal rule: assertNumbers.induct) auto

lemma parseArray_empty:
  "Unmarshal ext (''['' @ lit @ '']'') = ([], err) \<Longrightarrow>
   parseArray ext lit = Returns (FailNil EmptySliceNotCastable)"
  by (simp add: parseArray_def)

lemma parseArray_mixed:
  assumes "Unmarshal ext (''['' @ lit @ '']'') = (mapVal, err)" "mixes_kinds mapVal"
  shows "parseArray ext lit =
           (if kind_of (hd mapVal) = KindString \<or> kind_of (hd mapVal) = KindNumber
            then Panics else Returns (FailNil SliceUnknownType))"
proof (cases mapVal)
  case Nil
  with assms(2) show ?thesis by simp
next
  case (Cons v rest)
  with assms(2) obtain w where w: "w \<in> set rest" "kind_of w \<noteq> kind_of v" by auto
  show ?thesis
  proof (cases v)
    case (JSONString s)
    with w Cons have "assertStrings mapVal = None"
      by (auto simp: assertStrings_None_iff)
    with JSONString Cons assms(1) show ?thesis by (simp add: parseArray_def)
  next
    case (JSONNumber x)
    with w Cons have "assertNumbers mapVal = None"
      by (auto simp: assertNumbers_None_iff)
    with JSONNumber Cons assms(1) show ?thesis by (simp add: parseArray_def)
  qed (use Cons assms(1) in \<open>simp_all add: parseArray_def\<close>)
qed

lemma parseUnaryExpr_literal:
  assumes "scanWithMapping n p = Some ((tok, lit), p1)" "tok \<noteq> LPAREN"
  shows "parseUnaryExpr ext (Suc n) p =
           (case parseLiteral ext tok lit of
              Panics \<Rightarrow> Some Panics
            | Returns r \<Rightarrow> Some (Returns (r, p1)))"
  using assms by simp

lemma parseExpr_operand_fails:
  "parseUnaryExpr ext n p = Some Panics \<Longrightarrow> parseExpr ext (Suc n) p = Some Panics"
  "parseUnaryExpr ext n p = Some (Returns (FailNil e, p1)) \<Longrightarrow>
   parseExpr ext (Suc n) p = Some (Returns (FailNil e, p1))"
  by simp_all

text \<open>
  What \<^verbatim>\<open>parseUnaryExpr\<close> does with an array token that the scanner delivers, and
  \<^verbatim>\<open>Parse\<close> on a text that starts with it. An empty decoded list is the error of the
  empty slice, returned with no tree. A decoded list that mixes kinds gives no tree
  either: when its first element is a string or a number, the unchecked type assertion
  on the element of another kind panics; when its first element is of any other kind,
  the error of the unknown slice type is returned.
\<close>

lemma parseUnaryExpr_array_outcomes:
  assumes "scanWithMapping n p = Some ((ARRAY, lit), p1)"
    and "Unmarshal ext (''['' @ lit @ '']'') = (mapVal, err)"
  shows "(mapVal = [] \<longrightarrow>
            parseUnaryExpr ext (Suc n + k) p =
              Some (Returns (FailNil EmptySliceNotCastable, p1)) \<and>
            Parse ext (Suc (Suc n) + k) p =
              Some (Returns (FailNil EmptySliceNotCastable, p1))) \<and>
         (mixes_kinds mapVal \<longrightarrow>
            (if kind_of (hd mapVal) = KindString \<or> kind_of (hd mapVal) = KindNumber
             then parseUnaryExpr ext (Suc n + k) p = Some Panics \<and>
                  Parse ext (Suc (Suc n) + k) p = Some Panics
             else parseUnaryExpr ext (Suc n + k) p =
                    Some (Returns (FailNil SliceUnknownType, p1)) \<and>
                  Parse ext (Suc (Suc n) + k) p =
                    Some (Returns (FailNil SliceUnknownType, p1))))"
proof -
  have unary: "parseUnaryExpr ext (Suc n) p =
      (case parseArray ext lit of
         Panics \<Rightarrow> Some Panics
       | Returns r \<Rightarrow> Some (Returns (r, p1)))"
    using parseUnaryExpr_literal[OF assms(1), of ext] by (simp add: parseLiteral_def)
  have more: "parseUnaryExpr ext (Suc n + k) p = Some r \<and> Parse ext (Suc (Suc n) + k) p = Some r"
    if "parseUnaryExpr ext (Suc n) p = Some r" "r = Panics \<or> (\<exists>e. r = Returns (FailNil e, p1))"
    for r
  proof -
    from that have "Parse ext (Suc (Suc n)) p = Some r"
      unfolding Parse_def using parseExpr_operand_fails[of ext "Suc n" p] by auto
    from Parse_fuel[OF this, of k] that(1) parse_fuel[of ext "Suc n" k] show ?thesis by blast
  qed
  have empty: "parseUnaryExpr ext (Suc n) p = Some (Returns (FailNil EmptySliceNotCastable, p1))"
    if "mapVal = []"
    using that assms(2) unary by (simp add: parseArray_empty)
  have mixed: "parseUnaryExpr ext (Suc n) p =
      (if kind_of (hd mapVal) = KindString \<or> kind_of (hd mapVal) = KindNumber
       then Some Panics else Some (Returns (FailNil SliceUnknownType, p1)))"
    if "mixes_kinds mapVal"
    using unary parseArray_mixed[OF assms(2) that] by simp
  show ?thesis
  proof (intro conjI impI)
    assume "mapVal = []"
    from more[OF empty[OF this]]
    show "parseUnaryExpr ext (Suc n + k) p =
            Some (Returns (FailNil EmptySliceNotCastable, p1))"
      and "Parse ext (Suc (Suc n) + k) p = Some (Returns (FailNil EmptySliceNotCastable, p1))"
      by simp_all
  next
    assume m: "mixes_kinds mapVal"
    show "if kind_of (hd mapVal) = KindString \<or> kind_of (hd mapVal) = KindNumber
          then parseUnaryExpr ext (Suc n + k) p = Some Panics \<and>
               Parse ext (Suc (Suc n) + k) p = Some Panics
          else parseUnaryExpr ext (Suc n + k) p =
                 Some (Returns (FailNil SliceUnknownType, p1)) \<and>
               Parse ext (Suc (Suc n) + k) p =
                 Some (Returns (FailNil SliceUnknownType, p1))"
    proof (cases "kind_of (hd mapVal) = KindString \<or> kind_of (hd mapVal) = KindNumber")
      case True
      with mixed[OF m] have "parseUnaryExpr ext (Suc n) p = Some Panics" by simp
      from more[OF this] True show ?thesis by simp
    next
      case False
      with mixed[OF m]
      have "parseUnaryExpr ext (Suc n) p = Some (Returns (FailNil SliceUnknownType, p1))"
        by simp
      from more[OF this] False show ?thesis by simp
    qed
  qed
qed

lemma parseUnaryExpr_array_outcomes_example:
  "scanWithMapping 6 (NewParser tokens_array_a_1) =
     Some ((ARRAY, [CHR 0x22, CHR ''a'', CHR 0x22, CHR '','', CHR ''1'']),
       \<lparr>scanner = [], buf_tok = Rune (CHR '']''), buf_tt = '']'', buf_n = 0\<rparr>) \<and>
   mixes_kinds [JSONString ''a'', JSONNumber (Fin 1)] \<and>
   Parse sampleLibrary (Suc (Suc 6)) (NewParser tokens_array_a_1) = Some Panics \<and>
   Parse noLibrary (Suc (Suc 6)) (NewParser tokens_array_a_1) =
     Some (Returns (FailNil EmptySliceNotCastable,
       \<lparr>scanner = [], buf_tok = Rune (CHR '']''), buf_tt = '']'', buf_n = 0\<rparr>))"
proof -
  have h1: "scanWithMapping 6 (NewParser tokens_array_a_1) =
     Some ((ARRAY, [CHR 0x22, CHR ''a'', CHR 0x22, CHR '','', CHR ''1'']),
       \<lparr>scanner = [], buf_tok = Rune (CHR '']''), buf_tt = '']'', buf_n = 0\<rparr>)"
    by code_simp
  have h2: "Unmarshal sampleLibrary
      (''['' @ [CHR 0x22, CHR ''a'', CHR 0x22, CHR '','', CHR ''1''] @ '']'') =
      ([JSONString ''a'', JSONNumber (Fin 1)], None)"
    by (simp add: sampleLibrary_def)
  have h3: "Unmarshal noLibrary
      (''['' @ [CHR 0x22, CHR ''a'', CHR 0x22, CHR '','', CHR ''1''] @ '']'') =
      ([], Some (LibraryError
         (''['' @ [CHR 0x22, CHR ''a'', CHR 0x22, CHR '','', CHR ''1''] @ '']'')))"
    by (simp add: noLibrary_def)
  have h4: "mixes_kinds [JSONString ''a'', JSONNumber (Fin 1)]" by simp
  from parseUnaryExpr_array_outcomes[OF h1 h2, of 0] parseUnaryExpr_array_outcomes[OF h1 h3, of 0]
    h1 h4
  show ?thesis by simp
qed

text \<open>
  \<^verbatim>\<open>scanArray\<close> leaves its loop at a closing bracket only: when none is left in the
  input, no amount of fuel makes it return.
\<close>

lemma scanArray_no_bracket:
  assumes "buf_n p \<noteq> 0 \<longrightarrow> buf_tok p \<noteq> Rune (CHR '']'')"
    and "\<forall>x \<in> set (scanner p). fst x \<noteq> Rune (CHR '']'')"
  shows "scanArray n tt p = None"
  using assms
proof (induction n arbitrary: tt p)
  case 0
  show ?case by simp
next
  case (Suc n)
  obtain t ttTmp p1 where s: "scan p = ((t, ttTmp), p1)" by (metis prod.exhaust)
  from s Suc.prems have t: "t \<noteq> Rune (CHR '']'')"
    by (auto simp: scan_def split: if_splits list.splits)
  from s Suc.prems have p1: "buf_n p1 = 0" "\<forall>x \<in> set (scanner p1). fst x \<noteq> Rune (CHR '']'')"
    by (auto simp: scan_def split: if_splits list.splits)
  from Suc.IH[of p1] p1 have "scanArray n (tt @ [] @ ttTmp) p1 = None" by simp
  with s t show ?case by simp
qed

text \<open>
  The empty literal \<^verbatim>\<open>[]\<close> is not read as an array: \<^verbatim>\<open>scanArg\<close> takes the closing
  bracket for the name, fails on the token after it, and \<^verbatim>\<open>scanArray\<close> then looks for a
  closing bracket in the rest of the input. When the rest has none, \<^verbatim>\<open>Parse\<close> does not
  return, whatever the fuel.
\<close>

lemma Parse_empty_brackets_no_bracket_after:
  assumes "\<forall>x \<in> set rest. fst x \<noteq> Rune (CHR '']'')"
  shows "Parse ext n (NewParser ((Rune (CHR ''[''), ''['') # (Rune (CHR '']''), '']'') # rest)) = None"
proof (cases n)
  case 0
  then show ?thesis by (simp add: Parse_def)
next
  case n1: (Suc n1)
  show ?thesis
  proof (cases n1)
    case 0
    with n1 show ?thesis by (simp add: Parse_def)
  next
    case n2: (Suc n2)
    have "scanWithMapping n2
        (NewParser ((Rune (CHR ''[''), ''['') # (Rune (CHR '']''), '']'') # rest)) = None"
    proof (cases n2)
      case 0
      then show ?thesis
        by (simp add: scanWithMapping_def scan_def NewParser_def mapRune_def)
    next
      case n3: (Suc n3)
      show ?thesis
      proof (cases rest)
        case Nil
        have "scanArray n2 '']''
            \<lparr>scanner = [], buf_tok = scanner_EOF, buf_tt = [], buf_n = 1\<rparr> = None"
          by (rule scanArray_no_bracket) simp_all
        with n3 Nil show ?thesis
          by (simp add: scanWithMapping_def scan_def NewParser_def mapRune_def unscan_def)
      next
        case (Cons x rs)
        obtain t tx where x: "x = (t, tx)" by (metis prod.exhaust)
        from assms Cons x have t: "t \<noteq> Rune (CHR '']'')" and rs: "\<forall>x \<in> set rs. fst x \<noteq> Rune (CHR '']'')"
          by auto
        have "scanArray n2 '']''
            \<lparr>scanner = rs, buf_tok = t, buf_tt = tx, buf_n = 1\<rparr> = None"
          by (rule scanArray_no_bracket) (use t rs in simp_all)
        with n3 Cons x t show ?thesis
          by (simp add: scanWithMapping_def scan_def NewParser_def mapRune_def unscan_def)
      qed
    qed
    with n1 n2 show ?thesis by (simp add: Parse_def)
  qed
qed

text \<open>
  C6. Two array literals on which \<^verbatim>\<open>Parse\<close> returns no parse error. On the tokens of
  \<^verbatim>\<open>["a", 1]\<close>, decoded to a string followed by a number, the loop that fills the string
  slice asserts \<^verbatim>\<open>v.(string)\<close> on the number without \<^verbatim>\<open>ok\<close>: the call panics, with any
  fuel from 8 on. On the empty literal, alone or as in \<^verbatim>\<open>[] AND true\<close>, the scanner never
  delivers the array token, and \<^verbatim>\<open>Parse\<close> does not return with any fuel; the test file
  lists \<^verbatim>\<open>[] AND true\<close> among the texts that must give an error.
\<close>

theorem Parse_array_literal_no_error:
  "Unmarshal sampleLibrary [CHR ''['', CHR 0x22, CHR ''a'', CHR 0x22, CHR '','', CHR ''1'', CHR '']''] =
     ([JSONString ''a'', JSONNumber (Fin 1)], None) \<and>
   Parse sampleLibrary (8 + k) (NewParser tokens_array_a_1) = Some Panics \<and>
   Parse ext n (NewParser [(Rune (CHR ''[''), ''[''), (Rune (CHR '']''), '']'')]) = None \<and>
   Parse ext n (NewParser [(Rune (CHR ''[''), ''[''), (Rune (CHR '']''), '']''),
      (scanner_Ident, ''AND''), (scanner_Ident, ''true'')]) = None"
proof -
  have "Parse sampleLibrary 8 (NewParser tokens_array_a_1) = Some Panics"
    by code_simp
  from Parse_fuel[OF this, of k]
  have "Parse sampleLibrary (8 + k) (NewParser tokens_array_a_1) = Some Panics" .
  moreover have "Parse ext n (NewParser [(Rune (CHR ''[''), ''[''), (Rune (CHR '']''), '']'')]) = None"
    by (rule Parse_empty_brackets_no_bracket_after) simp
  moreover have "Parse ext n (NewParser [(Rune (CHR ''[''), ''[''), (Rune (CHR '']''), '']''),
      (scanner_Ident, ''AND''), (scanner_Ident, ''true'')]) = None"
    by (rule Parse_empty_brackets_no_bracket_after) simp
  ultimately show ?thesis by (simp add: sampleLibrary_def)
qed

text \<open>An operator after an expression continues it: the loop reads the next operand.\<close>

lemma parseExpr_loop_continues:
  assumes "scanWithMapping n p1 = Some ((op, tx), p2)" "isOperator op"
    and "parseUnaryExpr ext n p2 = Some (Returns (Ok rhs, p3))"
  shows "parseExpr_loop ext (Suc n) expr p1 = parseExpr_loop ext n (newRoot expr op rhs) p3"
proof -
  from assms(2) have "op \<noteq> ILLEGAL" by auto
  with assms show ?thesis by simp
qed


end
